theory Spec2Isabelle
  imports Complex_Main "HOL-Library.Multiset"
begin

section \<open>Tables, exceptions and the world the scripts act on\<close>

text \<open>
  A table as \<open>pd.read_csv(..., delim_whitespace=True)\<close> returns it: the header and the
  rows, each row a list of parsed fields. A field is missing (\<open>NA\<close>, pandas' NaN), a
  number or text. Numbers are modelled as reals; a row shorter than the header reads as
  \<open>NA\<close> beyond its end, as pandas pads it.
\<close>

datatype cell = NA | Num real | Str string

record dataframe =
  columns :: "string list"
  rows :: "cell list list"

datatype exc = IndexError | KeyError | TypeError | ValueError | ReadError string

text \<open>The files written by \<open>to_csv\<close> (path to table) and the lines printed.\<close>

record world =
  files :: "string \<rightharpoonup> dataframe"
  stdout :: "string list"

definition print :: "string \<Rightarrow> world \<Rightarrow> world" where
  "print s w = w\<lparr>stdout := stdout w @ [s]\<rparr>"

definition to_csv :: "dataframe \<Rightarrow> string \<Rightarrow> world \<Rightarrow> world" where
  "to_csv df path w = w\<lparr>files := (files w)(path \<mapsto> df)\<rparr>"

text \<open>Python's \<open>str\<close> of a non-negative integer, for the f-strings.\<close>

definition digit_char :: "nat \<Rightarrow> char" where
  "digit_char d = ''0123456789'' ! d"

fun str_nat :: "nat \<Rightarrow> string" where
  "str_nat n = (if n < 10 then [digit_char n] else str_nat (n div 10) @ [digit_char (n mod 10)])"

declare str_nat.simps [simp del]

subsection \<open>The pandas operations the scripts use\<close>

definition cell_at :: "cell list \<Rightarrow> nat \<Rightarrow> cell" where
  "cell_at r i = (if i < length r then r ! i else NA)"

fun index_of :: "string \<Rightarrow> string list \<Rightarrow> nat" where
  "index_of c [] = 0"
| "index_of c (x # xs) = (if x = c then 0 else Suc (index_of c xs))"

text \<open>\<open>df[name]\<close> for a name of the header: the column's fields, row by row.\<close>

definition getcol :: "dataframe \<Rightarrow> string \<Rightarrow> cell list" where
  "getcol df name = map (\<lambda>r. cell_at r (index_of name (columns df))) (rows df)"

definition notna :: "cell \<Rightarrow> bool" where
  "notna c = (c \<noteq> NA)"

text \<open>\<open>df[mask]\<close>: the rows whose mask entry is true.\<close>

definition select_mask :: "dataframe \<Rightarrow> bool list \<Rightarrow> dataframe" where
  "select_mask df bs = df\<lparr>rows := map fst (filter snd (zip (rows df) bs))\<rparr>"

text \<open>\<open>df[df[p_col].notna()]\<close>, the cleaning step the extractor and both renderers share.\<close>

definition remove_na :: "dataframe \<Rightarrow> string \<Rightarrow> dataframe" where
  "remove_na df p_col = select_mask df (map notna (getcol df p_col))"

text \<open>
  \<open>p_col = 'P' if 'P' in df.columns else df.columns[8]\<close>: position 8 is read without a
  check, so a header of fewer than nine names raises IndexError.
\<close>

definition resolve_p_col :: "dataframe \<Rightarrow> exc + string" where
  "resolve_p_col df =
     (if ''P'' \<in> set (columns df) then Inr ''P''
      else if 8 < length (columns df) then Inr (columns df ! 8)
      else Inl IndexError)"

text \<open>
  \<open>df.sort_values(by=p_col)\<close>: pandas asks numpy for the sorting permutation of the key
  column (\<open>argsort\<close>, of the kind pandas selects by default) and takes the rows in that
  order; \<open>take\<close> raises IndexError on a position outside the table. The permutation
  function belongs to the library and is a parameter of the model.
\<close>

definition sort_values :: "(cell list \<Rightarrow> nat list) \<Rightarrow> dataframe \<Rightarrow> string \<Rightarrow> exc + dataframe" where
  "sort_values argsort df by =
     (let indexer = argsort (getcol df by)
      in if \<forall>i \<in> set indexer. i < length (rows df)
         then Inr (df\<lparr>rows := map (\<lambda>i. rows df ! i) indexer\<rparr>)
         else Inl IndexError)"

text \<open>\<open>df.head(n)\<close> is \<open>df.iloc[:n]\<close>: a negative \<open>n\<close> drops the last \<open>-n\<close> rows.\<close>

definition head :: "dataframe \<Rightarrow> int \<Rightarrow> dataframe" where
  "head df n =
     (if 0 \<le> n then df\<lparr>rows := take (nat n) (rows df)\<rparr>
      else df\<lparr>rows := take (length (rows df) - nat (- n)) (rows df)\<rparr>)"

text \<open>
  \<open>df[col] < c\<close>: a numeric column compares field by field (a missing field compares
  false); a column holding text raises TypeError.
\<close>

fun is_str :: "cell \<Rightarrow> bool" where
  "is_str (Str s) = True"
| "is_str c = False"

fun cell_lt :: "real \<Rightarrow> cell \<Rightarrow> bool" where
  "cell_lt c (Num x) = (x < c)"
| "cell_lt c other = False"

definition lt_mask :: "cell list \<Rightarrow> real \<Rightarrow> exc + bool list" where
  "lt_mask col c = (if \<exists>x \<in> set col. is_str x then Inl TypeError else Inr (map (cell_lt c) col))"

text \<open>\<open>df[[n1, ..., nk]]\<close>: KeyError when a name is not in the header.\<close>

definition project_row :: "string list \<Rightarrow> string list \<Rightarrow> cell list \<Rightarrow> cell list" where
  "project_row cols names r = map (\<lambda>n. cell_at r (index_of n cols)) names"

definition select_columns :: "dataframe \<Rightarrow> string list \<Rightarrow> exc + dataframe" where
  "select_columns df names =
     (if \<forall>n \<in> set names. n \<in> set (columns df)
      then Inr \<lparr>columns = names, rows = map (project_row (columns df) names) (rows df)\<rparr>
      else Inl KeyError)"

section \<open>The SNP extractor (extract_top_snps.py)\<close>

text \<open>The two significance thresholds, \<open>5e-8\<close> and \<open>1e-5\<close>.\<close>

definition gw_threshold :: real where
  "gw_threshold = 5 / 10 ^ 8"

definition suggestive_threshold :: real where
  "suggestive_threshold = 1 / 10 ^ 5"

text \<open>
  \<open>extract_top_snps(input_file, output_prefix, n_top=1000)\<close>. The file system's answer
  to \<open>pd.read_csv\<close> is the parameter \<open>read_csv\<close>: the parsed table, or the message of
  the exception raised. The result is the world after the call and either the uncaught
  exception or the value returned: \<open>None\<close> for the bare \<open>return\<close> of the read-error
  handler, the pair of counts otherwise. Writes by \<open>to_csv\<close> are taken to succeed.
\<close>

definition extract_top_snps ::
  "(string \<Rightarrow> string + dataframe) \<Rightarrow> (cell list \<Rightarrow> nat list) \<Rightarrow>
     string \<Rightarrow> string \<Rightarrow> int \<Rightarrow> world \<Rightarrow> world \<times> (exc + (nat \<times> nat) option)" where
  "extract_top_snps read_csv argsort input_file output_prefix n_top w0 =
    (let w1 = print (''Reading association file: '' @ input_file) w0 in
     case read_csv input_file of
       Inl e \<Rightarrow> (print (''Error reading file: '' @ e) w1, Inr None)
     | Inr df \<Rightarrow>
    (let w2 = print (''Total SNPs in file: '' @ str_nat (length (rows df))) w1 in
     case resolve_p_col df of
       Inl x \<Rightarrow> (w2, Inl x)
     | Inr p_col \<Rightarrow>
    (let df_clean = remove_na df p_col;
         w3 = print (''SNPs with valid p-values: '' @ str_nat (length (rows df_clean))) w2 in
     case sort_values argsort df_clean p_col of
       Inl x \<Rightarrow> (w3, Inl x)
     | Inr df_sorted \<Rightarrow>
    (let top_1000 = head df_sorted n_top;
         out_1000 = output_prefix @ ''/top_1000_snps.txt'';
         w4 = print (''Top 1000 SNPs saved to: '' @ out_1000) (to_csv top_1000 out_1000 w3);
         top_100 = head df_sorted 100;
         out_100 = output_prefix @ ''/top_100_snps.txt'';
         w5 = print (''Top 100 SNPs saved to: '' @ out_100) (to_csv top_100 out_100 w4) in
     case lt_mask (getcol df_clean p_col) gw_threshold of
       Inl x \<Rightarrow> (w5, Inl x)
     | Inr m_gw \<Rightarrow>
    (let gw_sig = select_mask df_clean m_gw;
         out_gw = output_prefix @ ''/genome_wide_significant_snps_5e-8.txt'';
         w6 = print (''Saved to: '' @ out_gw)
               (print (''Genome-wide significant SNPs (p<5e-8): '' @ str_nat (length (rows gw_sig)))
                 (to_csv gw_sig out_gw w5)) in
     case lt_mask (getcol df_clean p_col) suggestive_threshold of
       Inl x \<Rightarrow> (w6, Inl x)
     | Inr m_sugg \<Rightarrow>
    (let suggestive = select_mask df_clean m_sugg;
         out_sugg = output_prefix @ ''/suggestive_snps_1e-5.txt'';
         w7 = print (''Saved to: '' @ out_sugg)
               (print (''Suggestive SNPs (p<1e-5): '' @ str_nat (length (rows suggestive)))
                 (to_csv suggestive out_sugg w6));
         out_summary = output_prefix @ ''/summary_statistics.txt'' in
     case select_columns df_clean [''CHR'', ''SNP'', ''BP'', ''A1'', p_col] of
       Inl x \<Rightarrow> (w7, Inl x)
     | Inr summary0 \<Rightarrow>
    (let summary = summary0\<lparr>columns := [''CHR'', ''SNP'', ''BP'', ''A1'', ''P'']\<rparr>;
         w8 = print (''Summary statistics saved to: '' @ out_summary)
               (to_csv summary out_summary w7);
         w9 = print (CHR 0x0A # ''Extraction complete!'') w8
     in (w9, Inr (Some (length (rows gw_sig), length (rows suggestive)))))))))))"

text \<open>
  The command line, \<open>if __name__ == "__main__"\<close>: fewer than two arguments after the
  script name print the usage and exit with code 1; otherwise the function is called
  with the first two and its result is unpacked into two counts, which raises TypeError
  when the result is \<open>None\<close>.
\<close>

datatype outcome = Finished | Exit nat | Uncaught exc

definition main_cli ::
  "(string \<Rightarrow> string + dataframe) \<Rightarrow> (cell list \<Rightarrow> nat list) \<Rightarrow>
     string list \<Rightarrow> world \<Rightarrow> world \<times> outcome" where
  "main_cli read_csv argsort argv w0 =
    (if length argv < 3
     then (print ''Usage: python extract_top_snps.py <input_assoc_file> <output_directory>'' w0, Exit 1)
     else
       (let input_file = argv ! 1;
            output_dir = argv ! 2
        in case extract_top_snps read_csv argsort input_file output_dir 1000 w0 of
             (w1, Inl x) \<Rightarrow> (w1, Uncaught x)
           | (w1, Inr None) \<Rightarrow> (w1, Uncaught TypeError)
           | (w1, Inr (Some (gw, sugg))) \<Rightarrow>
               (print (''Suggestive: '' @ str_nat sugg)
                 (print (''Genome-wide significant: '' @ str_nat gw)
                   (print (CHR 0x0A # ''=== Summary ==='') w1)), Finished)))"


section \<open>The renderers' data preparation (generate_plots.py)\<close>

text \<open>
  What \<open>-np.log10\<close> yields on a number: finite for a positive one, \<open>inf\<close> at zero
  (\<open>log10(0) = -inf\<close>), NaN for a negative one. On a column holding text numpy raises
  TypeError.
\<close>

datatype npfloat = Fin real | PInf | NaN

definition minus_log10 :: "cell \<Rightarrow> npfloat" where
  "minus_log10 c =
     (case c of
        Num x \<Rightarrow> (if 0 < x then Fin (- log 10 x) else if x = 0 then PInf else NaN)
      | _ \<Rightarrow> NaN)"

definition minus_log10_column :: "cell list \<Rightarrow> exc + npfloat list" where
  "minus_log10_column col =
     (if \<exists>x \<in> set col. is_str x then Inl TypeError else Inr (map minus_log10 col))"

text \<open>
  \<open>manhattan_plot\<close> up to its second cleaning step: read (a failure propagates), resolve
  the p-value column, drop rows with a missing p-value, add \<open>MINLOG10P\<close>, drop rows whose
  \<open>MINLOG10P\<close> is NaN. The result pairs each remaining row with its \<open>MINLOG10P\<close>.
\<close>

definition manhattan_plot_points ::
  "(string \<Rightarrow> string + dataframe) \<Rightarrow> string \<Rightarrow> exc + (cell list \<times> npfloat) list" where
  "manhattan_plot_points read_csv assoc_file =
     (case read_csv assoc_file of
        Inl e \<Rightarrow> Inl (ReadError e)
      | Inr df0 \<Rightarrow>
     (case resolve_p_col df0 of
        Inl x \<Rightarrow> Inl x
      | Inr p_col \<Rightarrow>
     (let df = remove_na df0 p_col in
      case minus_log10_column (getcol df p_col) of
        Inl x \<Rightarrow> Inl x
      | Inr ys \<Rightarrow> Inr (filter (\<lambda>(r, y). y \<noteq> NaN) (zip (rows df) ys)))))"

text \<open>
  \<open>qq_plot\<close>: the p-values kept are those present and, by \<open>pvals[pvals > 0]\<close>, positive
  (the comparison raises TypeError on a column holding text).
\<close>

fun num_values :: "cell list \<Rightarrow> real list" where
  "num_values [] = []"
| "num_values (Num x # cs) = x # num_values cs"
| "num_values (c # cs) = num_values cs"

definition qq_plot_pvals :: "(string \<Rightarrow> string + dataframe) \<Rightarrow> string \<Rightarrow> exc + real list" where
  "qq_plot_pvals read_csv assoc_file =
     (case read_csv assoc_file of
        Inl e \<Rightarrow> Inl (ReadError e)
      | Inr df \<Rightarrow>
     (case resolve_p_col df of
        Inl x \<Rightarrow> Inl x
      | Inr p_col \<Rightarrow>
     (let pvals = getcol (remove_na df p_col) p_col
      in if \<exists>x \<in> set pvals. is_str x then Inl TypeError
         else Inr (filter (\<lambda>p. 0 < p) (num_values pvals)))))"

text \<open>\<open>-np.log10(np.arange(1, n + 1) / (n + 1))\<close>.\<close>

definition expected_quantiles :: "nat \<Rightarrow> real list" where
  "expected_quantiles n = map (\<lambda>i. - log 10 (real i / real (n + 1))) [1 ..< n + 1]"

text \<open>
  \<open>np.percentile(a, 50)\<close> and \<open>np.median(a)\<close>, linear interpolation between the two
  middle order statistics; NaN (here \<open>None\<close>) on an empty array.
\<close>

definition percentile50 :: "real list \<Rightarrow> real option" where
  "percentile50 a =
     (if a = [] then None
      else (let s = sort a;
                n = length s;
                lo = (n - 1) div 2;
                hi = min (lo + 1) (n - 1);
                g = (if even n then 1 / 2 else 0)
            in Some (s ! lo + (s ! hi - s ! lo) * g)))"

text \<open>\<open>chisq > 0\<close>, false on NaN.\<close>

fun gt_zero :: "real option \<Rightarrow> bool" where
  "gt_zero None = False"
| "gt_zero (Some c) = (0 < c)"

text \<open>
  The inflation factor; \<open>randn n\<close> stands for the \<open>n\<close> draws of \<open>np.random.randn(n)\<close>.
  The fallback \<open>1.0\<close> is the \<open>else\<close> of the conditional expression.
\<close>

definition lambda_gc :: "(nat \<Rightarrow> real list) \<Rightarrow> real list \<Rightarrow> real option" where
  "lambda_gc randn pvals =
     (let chisq = percentile50 pvals
      in if gt_zero chisq
         then (case chisq of
                 Some c \<Rightarrow>
                   map_option (\<lambda>m. m / c)
                     (percentile50 (map (\<lambda>z. (sqrt 2 * \<bar>z\<bar>)\<^sup>2) (randn (length pvals))))
               | None \<Rightarrow> None)
         else Some 1)"

record qq_result =
  observed :: "real list"
  expected :: "real list"
  lambda :: "real option"

text \<open>
  The numbers \<open>qq_plot\<close> plots and returns. \<open>expected.max()\<close> raises ValueError on an
  empty array, after \<open>lambda_gc\<close> has been computed.
\<close>

definition qq_plot ::
  "(string \<Rightarrow> string + dataframe) \<Rightarrow> (nat \<Rightarrow> real list) \<Rightarrow> string \<Rightarrow> exc + qq_result" where
  "qq_plot read_csv randn assoc_file =
     (case qq_plot_pvals read_csv assoc_file of
        Inl x \<Rightarrow> Inl x
      | Inr pvals \<Rightarrow>
     (let obs = sort (map (\<lambda>p. - log 10 p) pvals);
          n = length obs;
          ex = expected_quantiles n;
          lambda_gc = lambda_gc randn pvals
      in if n = 0 then Inl ValueError
         else Inr \<lparr>observed = obs, expected = ex, lambda = lambda_gc\<rparr>))"

section \<open>Notions used to state the properties\<close>

text \<open>
  What the library promises of \<open>argsort\<close> on a column of \<open>n\<close> entries: each position
  \<open>0, ..., n - 1\<close> exactly once.
\<close>

definition permutation_of_range :: "nat list \<Rightarrow> nat \<Rightarrow> bool" where
  "permutation_of_range idx n = (sort idx = [0 ..< n])"

text \<open>The p-value column of a table, resolved as the scripts resolve it.\<close>

definition p_values :: "dataframe \<Rightarrow> exc + cell list" where
  "p_values df = (case resolve_p_col df of Inl x \<Rightarrow> Inl x | Inr p_col \<Rightarrow> Inr (getcol df p_col))"

text \<open>A valid p-value for the Q-Q plot: present and positive.\<close>

fun valid_p :: "cell \<Rightarrow> bool" where
  "valid_p (Num x) = (0 < x)"
| "valid_p c = False"

subsection \<open>Example inputs\<close>

text \<open>
  An ascending sorting permutation, by insertion: each position goes behind the entries
  that are not greater. Numbers compare by value, text by code points, and a missing
  entry comes last. It stands for the library's \<open>argsort\<close> in the examples below. Their
  key columns have pairwise distinct entries, and on such a column every ascending sort
  returns the same permutation.
\<close>

fun str_less :: "string \<Rightarrow> string \<Rightarrow> bool" where
  "str_less [] [] = False"
| "str_less [] (y # ys) = True"
| "str_less (x # xs) [] = False"
| "str_less (x # xs) (y # ys) =
     ((of_char x :: nat) < of_char y \<or> (x = y \<and> str_less xs ys))"

fun key_less :: "cell \<Rightarrow> cell \<Rightarrow> bool" where
  "key_less (Num a) (Num b) = (a < b)"
| "key_less (Str a) (Str b) = str_less a b"
| "key_less (Num a) NA = True"
| "key_less (Str a) NA = True"
| "key_less a b = False"

fun insert_index :: "cell list \<Rightarrow> nat \<Rightarrow> nat list \<Rightarrow> nat list" where
  "insert_index ks i [] = [i]"
| "insert_index ks i (j # js) =
     (if key_less (ks ! i) (ks ! j) then i # j # js else j # insert_index ks i js)"

definition ascending_argsort :: "cell list \<Rightarrow> nat list" where
  "ascending_argsort ks = foldl (\<lambda>acc i. insert_index ks i acc) [] [0 ..< length ks]"

text \<open>
  A world in which nothing has been written or printed, and five small tables: five
  variants with p-values 0.5, NA, 4e-9, 2e-6 and 1e-7; the same with a zero and two other
  p-values; a table without the allele column; a table of three columns none of which is
  named \<open>P\<close>; and a table without the allele column whose p-value column holds text.
\<close>

definition empty_world :: world where
  "empty_world = \<lparr>files = Map.empty, stdout = []\<rparr>"

definition example_table :: dataframe where
  "example_table =
     \<lparr>columns = [''CHR'', ''SNP'', ''BP'', ''A1'', ''P''],
      rows = [[Num 1, Str ''rs1'', Num 100, Str ''A'', Num (1 / 2)],
              [Num 1, Str ''rs2'', Num 200, Str ''C'', NA],
              [Num 2, Str ''rs3'', Num 300, Str ''G'', Num (1 / 250000000)],
              [Num 2, Str ''rs4'', Num 400, Str ''T'', Num (1 / 500000)],
              [Num 3, Str ''rs5'', Num 500, Str ''A'', Num (1 / 10000000)]]\<rparr>"

definition zero_p_table :: dataframe where
  "zero_p_table =
     \<lparr>columns = [''CHR'', ''SNP'', ''BP'', ''A1'', ''P''],
      rows = [[Num 1, Str ''rs1'', Num 100, Str ''A'', Num (1 / 2)],
              [Num 1, Str ''rs2'', Num 200, Str ''C'', NA],
              [Num 2, Str ''rs3'', Num 300, Str ''G'', Num 0],
              [Num 2, Str ''rs4'', Num 400, Str ''T'', Num (1 / 4)],
              [Num 3, Str ''rs5'', Num 500, Str ''A'', Num (1 / 8)]]\<rparr>"

definition no_allele_table :: dataframe where
  "no_allele_table =
     \<lparr>columns = [''CHR'', ''SNP'', ''BP'', ''P''],
      rows = [[Num 1, Str ''rs1'', Num 100, Num (1 / 2)],
              [Num 1, Str ''rs2'', Num 200, NA],
              [Num 2, Str ''rs3'', Num 300, Num (1 / 250000000)]]\<rparr>"

definition short_table :: dataframe where
  "short_table =
     \<lparr>columns = [''CHR'', ''SNP'', ''PVALUE''],
      rows = [[Num 1, Str ''rs1'', Num (1 / 2)]]\<rparr>"

definition text_p_table :: dataframe where
  "text_p_table =
     \<lparr>columns = [''CHR'', ''SNP'', ''BP'', ''P''],
      rows = [[Num 1, Str ''rs1'', Num 100, Str ''<0.001'']]\<rparr>"

section \<open>Auxiliary facts\<close>

subsection \<open>Tables\<close>

lemma rows_remove_na:
  "rows (remove_na df pc) = filter (\<lambda>r. notna (cell_at r (index_of pc (columns df)))) (rows df)"
proof -
  have "map fst (filter snd (zip xs (map P xs))) = filter P xs" for P and xs :: "cell list list"
    by (induction xs) auto
  then show ?thesis
    by (simp add: remove_na_def select_mask_def getcol_def o_def)
qed

lemma columns_remove_na [simp]: "columns (remove_na df pc) = columns df"
  by (simp add: remove_na_def select_mask_def)

lemma columns_select_mask [simp]: "columns (select_mask df bs) = columns df"
  by (simp add: select_mask_def)

lemma columns_head [simp]: "columns (head df n) = columns df"
  by (simp add: head_def)

lemma set_rows_select_mask: "set (rows (select_mask df bs)) \<subseteq> set (rows df)"
  by (auto simp: select_mask_def dest: set_zip_leftD)

lemma rows_head_take: "\<exists>k. rows (head df n) = take k (rows df)"
  by (auto simp: head_def)

lemma set_rows_head: "set (rows (head df n)) \<subseteq> set (rows df)"
  by (auto simp: head_def dest: in_set_takeD)

lemma sort_values_perm:
  assumes "permutation_of_range (argsort (getcol df key)) (length (rows df))"
  shows "\<exists>ds. sort_values argsort df key = Inr ds \<and> columns ds = columns df
           \<and> mset (rows ds) = mset (rows df)
           \<and> rows ds = map (\<lambda>i. rows df ! i) (argsort (getcol df key))"
proof -
  let ?idx = "argsort (getcol df key)"
  have "mset (sort ?idx) = mset [0 ..< length (rows df)]"
    using assms by (simp only: permutation_of_range_def)
  then have m: "mset ?idx = mset [0 ..< length (rows df)]"
    by simp
  then have "set ?idx = set [0 ..< length (rows df)]"
    by (rule mset_eq_setD)
  then have valid: "\<forall>i \<in> set ?idx. i < length (rows df)" by simp
  have "mset (map (\<lambda>i. rows df ! i) ?idx) = image_mset (\<lambda>i. rows df ! i) (mset [0 ..< length (rows df)])"
    using m by (metis mset_map)
  also have "\<dots> = mset (map (\<lambda>i. rows df ! i) [0 ..< length (rows df)])" by simp
  also have "\<dots> = mset (rows df)" by (simp add: map_nth)
  finally show ?thesis using valid by (simp add: sort_values_def Let_def)
qed

lemma sort_values_rows_subset:
  "sort_values argsort df by = Inr ds \<Longrightarrow> set (rows ds) \<subseteq> set (rows df) \<and> columns ds = columns df"
  by (auto simp: sort_values_def Let_def split: if_splits)

lemma files_print [simp]: "files (print s w) = files w"
  by (simp add: print_def)

lemma files_to_csv [simp]: "files (to_csv df path w) = (files w)(path \<mapsto> df)"
  by (simp add: to_csv_def)

lemma extract_files_TypeError:
  assumes "read_csv input_file = Inr df" and "resolve_p_col df = Inr pc"
    and "sort_values argsort (remove_na df pc) pc = Inr ds"
    and "\<exists>x \<in> set (getcol (remove_na df pc) pc). is_str x"
  shows "snd (extract_top_snps read_csv argsort input_file pre n_top w0) = Inl TypeError"
    and "files (fst (extract_top_snps read_csv argsort input_file pre n_top w0)) =
           (files w0)(pre @ ''/top_1000_snps.txt'' \<mapsto> head ds n_top,
                      pre @ ''/top_100_snps.txt'' \<mapsto> head ds 100)"
  using assms by (simp_all add: extract_top_snps_def Let_def lt_mask_def)

lemma extract_files_KeyError:
  assumes "read_csv input_file = Inr df" and "resolve_p_col df = Inr pc"
    and "sort_values argsort (remove_na df pc) pc = Inr ds"
    and "\<not> (\<exists>x \<in> set (getcol (remove_na df pc) pc). is_str x)"
    and "\<not> (\<forall>n \<in> set [''CHR'', ''SNP'', ''BP'', ''A1'', pc]. n \<in> set (columns df))"
  shows "snd (extract_top_snps read_csv argsort input_file pre n_top w0) = Inl KeyError"
    and "files (fst (extract_top_snps read_csv argsort input_file pre n_top w0)) =
           (files w0)(pre @ ''/top_1000_snps.txt'' \<mapsto> head ds n_top,
                      pre @ ''/top_100_snps.txt'' \<mapsto> head ds 100,
                      pre @ ''/genome_wide_significant_snps_5e-8.txt'' \<mapsto>
                        select_mask (remove_na df pc) (map (cell_lt gw_threshold) (getcol (remove_na df pc) pc)),
                      pre @ ''/suggestive_snps_1e-5.txt'' \<mapsto>
                        select_mask (remove_na df pc) (map (cell_lt suggestive_threshold) (getcol (remove_na df pc) pc)))"
proof -
  have k: "select_columns (remove_na df pc) [''CHR'', ''SNP'', ''BP'', ''A1'', pc] = Inl KeyError"
    using assms(5) unfolding select_columns_def columns_remove_na by (rule if_not_P)
  show "snd (extract_top_snps read_csv argsort input_file pre n_top w0) = Inl KeyError"
    using assms(1-4) k by (simp add: extract_top_snps_def Let_def lt_mask_def)
  show "files (fst (extract_top_snps read_csv argsort input_file pre n_top w0)) =
           (files w0)(pre @ ''/top_1000_snps.txt'' \<mapsto> head ds n_top,
                      pre @ ''/top_100_snps.txt'' \<mapsto> head ds 100,
                      pre @ ''/genome_wide_significant_snps_5e-8.txt'' \<mapsto>
                        select_mask (remove_na df pc) (map (cell_lt gw_threshold) (getcol (remove_na df pc) pc)),
                      pre @ ''/suggestive_snps_1e-5.txt'' \<mapsto>
                        select_mask (remove_na df pc) (map (cell_lt suggestive_threshold) (getcol (remove_na df pc) pc)))"
    using assms(1-4) k by (simp add: extract_top_snps_def Let_def lt_mask_def)
qed

lemma extract_files_Returned:
  assumes "read_csv input_file = Inr df" and "resolve_p_col df = Inr pc"
    and "sort_values argsort (remove_na df pc) pc = Inr ds"
    and "\<not> (\<exists>x \<in> set (getcol (remove_na df pc) pc). is_str x)"
    and "\<forall>n \<in> set [''CHR'', ''SNP'', ''BP'', ''A1'', pc]. n \<in> set (columns df)"
  shows "snd (extract_top_snps read_csv argsort input_file pre n_top w0) =
           Inr (Some (length (rows (select_mask (remove_na df pc) (map (cell_lt gw_threshold) (getcol (remove_na df pc) pc)))),
                      length (rows (select_mask (remove_na df pc) (map (cell_lt suggestive_threshold) (getcol (remove_na df pc) pc))))))"
    and "files (fst (extract_top_snps read_csv argsort input_file pre n_top w0)) =
           (files w0)(pre @ ''/top_1000_snps.txt'' \<mapsto> head ds n_top,
                      pre @ ''/top_100_snps.txt'' \<mapsto> head ds 100,
                      pre @ ''/genome_wide_significant_snps_5e-8.txt'' \<mapsto>
                        select_mask (remove_na df pc) (map (cell_lt gw_threshold) (getcol (remove_na df pc) pc)),
                      pre @ ''/suggestive_snps_1e-5.txt'' \<mapsto>
                        select_mask (remove_na df pc) (map (cell_lt suggestive_threshold) (getcol (remove_na df pc) pc)),
                      pre @ ''/summary_statistics.txt'' \<mapsto>
                        \<lparr>columns = [''CHR'', ''SNP'', ''BP'', ''A1'', ''P''],
                         rows = map (project_row (columns df) [''CHR'', ''SNP'', ''BP'', ''A1'', pc]) (rows (remove_na df pc))\<rparr>)"
  using assms by (simp_all add: extract_top_snps_def Let_def lt_mask_def select_columns_def)

lemma rows_select_mask_getcol:
  "rows (select_mask df (map f (getcol df pc))) = filter (\<lambda>r. f (cell_at r (index_of pc (columns df)))) (rows df)"
proof -
  have "map fst (filter snd (zip xs (map P xs))) = filter P xs" for P and xs :: "cell list list"
    by (induction xs) auto
  then show ?thesis
    by (simp add: select_mask_def getcol_def o_def)
qed

lemma extract_top_files:
  assumes "read_csv input_file = Inr df" and "resolve_p_col df = Inr pc"
    and "sort_values argsort (remove_na df pc) pc = Inr ds"
  shows "files (fst (extract_top_snps read_csv argsort input_file pre n_top w0)) (pre @ ''/top_1000_snps.txt'') = Some (head ds n_top)
       \<and> files (fst (extract_top_snps read_csv argsort input_file pre n_top w0)) (pre @ ''/top_100_snps.txt'') = Some (head ds 100)"
proof (cases "\<exists>x \<in> set (getcol (remove_na df pc) pc). is_str x")
  case True
  show ?thesis by (simp add: extract_files_TypeError(2) [where read_csv = read_csv and input_file = input_file and argsort = argsort, OF assms True])
next
  case False
  show ?thesis
  proof (cases "\<forall>n \<in> set [''CHR'', ''SNP'', ''BP'', ''A1'', pc]. n \<in> set (columns df)")
    case True
    show ?thesis by (simp add: extract_files_Returned(2) [where read_csv = read_csv and input_file = input_file and argsort = argsort, OF assms False True])
  next
    case k: False
    show ?thesis by (simp add: extract_files_KeyError(2) [where read_csv = read_csv and input_file = input_file and argsort = argsort, OF assms False k])
  qed
qed

lemma files_main_cli:
  "3 \<le> length argv \<Longrightarrow>
   files (fst (main_cli read_csv argsort argv w0)) =
   files (fst (extract_top_snps read_csv argsort (argv ! 1) (argv ! 2) 1000 w0))"
  by (simp add: main_cli_def Let_def split: prod.splits sum.splits option.splits)

lemma resolve_p_col_cong: "columns a = columns b \<Longrightarrow> resolve_p_col a = resolve_p_col b"
  by (simp add: resolve_p_col_def)

lemma p_values_subtable:
  assumes "resolve_p_col df = Inr pc" and "columns T = columns df"
    and "set (rows T) \<subseteq> set (rows (remove_na df pc))"
  shows "\<exists>ps. p_values T = Inr ps \<and> NA \<notin> set ps"
proof -
  have "resolve_p_col T = Inr pc"
    using assms(1,2) resolve_p_col_cong [of T df] by simp
  moreover have "NA \<notin> set (getcol T pc)"
    using assms(2,3) by (auto simp: getcol_def rows_remove_na notna_def)
  ultimately show ?thesis by (simp add: p_values_def)
qed

lemma p_values_summary:
  "\<exists>ps. p_values \<lparr>columns = [''CHR'', ''SNP'', ''BP'', ''A1'', ''P''],
                     rows = map (project_row (columns df) [''CHR'', ''SNP'', ''BP'', ''A1'', pc]) (rows (remove_na df pc))\<rparr> = Inr ps
        \<and> NA \<notin> set ps"
  by (auto simp: p_values_def resolve_p_col_def getcol_def project_row_def cell_at_def rows_remove_na notna_def)

lemma extract_files_good:
  assumes "files (fst (extract_top_snps read_csv argsort input_file pre n_top w0)) path = Some T"
  shows "files w0 path = Some T \<or> (\<exists>ps. p_values T = Inr ps \<and> NA \<notin> set ps)"
proof (cases "\<exists>df pc ds. read_csv input_file = Inr df \<and> resolve_p_col df = Inr pc
                \<and> sort_values argsort (remove_na df pc) pc = Inr ds")
  case False
  have "files (fst (extract_top_snps read_csv argsort input_file pre n_top w0)) = files w0"
    using False by (auto simp add: extract_top_snps_def Let_def split: sum.splits)
  then show ?thesis using assms by simp
next
  case True
  then obtain df pc ds where h: "read_csv input_file = Inr df" "resolve_p_col df = Inr pc"
      "sort_values argsort (remove_na df pc) pc = Inr ds"
    by blast
  let ?c = "remove_na df pc"
  have sub: "set (rows ds) \<subseteq> set (rows ?c)" and cols: "columns ds = columns df"
    using sort_values_rows_subset [OF h(3)] by auto
  have g1: "\<exists>ps. p_values (head ds n) = Inr ps \<and> NA \<notin> set ps" for n
    using p_values_subtable [OF h(2), of "head ds n"] cols sub set_rows_head [of ds n] by auto
  have g2: "\<exists>ps. p_values (select_mask ?c bs) = Inr ps \<and> NA \<notin> set ps" for bs
    using p_values_subtable [OF h(2), of "select_mask ?c bs"] set_rows_select_mask [of ?c bs] by auto
  note g3 = p_values_summary [of df pc]
  show ?thesis
  proof (cases "\<exists>x \<in> set (getcol ?c pc). is_str x")
    case True
    note f = extract_files_TypeError(2) [where read_csv = read_csv and input_file = input_file and argsort = argsort,
        OF h True, of pre n_top w0]
    show ?thesis using assms g1 unfolding f by (auto split: if_splits)
  next
    case nostr: False
    show ?thesis
    proof (cases "\<forall>n \<in> set [''CHR'', ''SNP'', ''BP'', ''A1'', pc]. n \<in> set (columns df)")
      case True
      note f = extract_files_Returned(2) [where read_csv = read_csv and input_file = input_file and argsort = argsort,
          OF h nostr True, of pre n_top w0]
      show ?thesis using assms g1 g2 g3 unfolding f by (auto split: if_splits)
    next
      case False
      note f = extract_files_KeyError(2) [where read_csv = read_csv and input_file = input_file and argsort = argsort,
          OF h nostr False, of pre n_top w0]
      show ?thesis using assms g1 g2 unfolding f by (auto split: if_splits)
    qed
  qed
qed

lemma getcol_remove_na: "getcol (remove_na df pc) pc = filter notna (getcol df pc)"
  by (simp add: getcol_def rows_remove_na filter_map o_def)

lemma no_text_cleaned:
  "\<forall>c \<in> set (getcol df pc). \<not> is_str c \<Longrightarrow> \<not> (\<exists>x \<in> set (getcol (remove_na df pc) pc). is_str x)"
  by (auto simp: getcol_remove_na)

lemma rows_cleaned: "rows (remove_na df pc) = filter (\<lambda>r. cell_at r (index_of pc (columns df)) \<noteq> NA) (rows df)"
  by (simp add: rows_remove_na notna_def)

lemma rows_below:
  "rows (select_mask (remove_na df pc) (map (cell_lt c) (getcol (remove_na df pc) pc))) =
     filter (\<lambda>r. case cell_at r (index_of pc (columns df)) of Num x \<Rightarrow> x < c | _ \<Rightarrow> False) (rows df)"
proof -
  have "(x \<noteq> NA \<and> cell_lt c x) = (case x of Num y \<Rightarrow> y < c | _ \<Rightarrow> False)" for x
    by (cases x) auto
  then show ?thesis
    using rows_select_mask_getcol [of "remove_na df pc" "cell_lt c" pc]
    by (simp add: rows_cleaned conj_commute)
qed

lemma below_present: "(case x of Num y \<Rightarrow> y < c | _ \<Rightarrow> False) \<Longrightarrow> x \<noteq> NA"
  by (cases x) auto

lemma dataframe_eqI: "columns d = c \<Longrightarrow> rows d = r \<Longrightarrow> (d::dataframe) = \<lparr>columns = c, rows = r\<rparr>"
  by (cases d) simp

lemma rows_gw:
  "rows (select_mask (remove_na df pc) (map (cell_lt gw_threshold) (getcol (remove_na df pc) pc))) =
     filter (\<lambda>r. case cell_at r (index_of pc (columns df)) of Num x \<Rightarrow> x < 5 / 10 ^ 8 | _ \<Rightarrow> False) (rows df)"
  unfolding gw_threshold_def by (rule rows_below)

lemma rows_suggestive:
  "rows (select_mask (remove_na df pc) (map (cell_lt suggestive_threshold) (getcol (remove_na df pc) pc))) =
     filter (\<lambda>r. case cell_at r (index_of pc (columns df)) of Num x \<Rightarrow> x < 1 / 10 ^ 5 | _ \<Rightarrow> False) (rows df)"
  unfolding suggestive_threshold_def by (rule rows_below)

lemma extract_complete_files:
  assumes "read_csv input_file = Inr df" and "resolve_p_col df = Inr pc"
    and "\<forall>c \<in> set (getcol df pc). \<not> is_str c"
    and "permutation_of_range (argsort (getcol (remove_na df pc) pc)) (length (rows (remove_na df pc)))"
  shows "\<exists>ds. mset ds = mset (filter (\<lambda>r. cell_at r (index_of pc (columns df)) \<noteq> NA) (rows df))
      \<and> files (fst (extract_top_snps read_csv argsort input_file pre n_top w0)) (pre @ ''/top_1000_snps.txt'')
           = Some \<lparr>columns = columns df,
                    rows = (if 0 \<le> n_top then take (nat n_top) ds else take (length ds - nat (- n_top)) ds)\<rparr>
      \<and> files (fst (extract_top_snps read_csv argsort input_file pre n_top w0)) (pre @ ''/top_100_snps.txt'')
           = Some \<lparr>columns = columns df, rows = take 100 ds\<rparr>
      \<and> files (fst (extract_top_snps read_csv argsort input_file pre n_top w0)) (pre @ ''/genome_wide_significant_snps_5e-8.txt'')
           = Some \<lparr>columns = columns df,
                    rows = filter (\<lambda>r. case cell_at r (index_of pc (columns df)) of Num x \<Rightarrow> x < 5 / 10 ^ 8 | _ \<Rightarrow> False) (rows df)\<rparr>
      \<and> files (fst (extract_top_snps read_csv argsort input_file pre n_top w0)) (pre @ ''/suggestive_snps_1e-5.txt'')
           = Some \<lparr>columns = columns df,
                    rows = filter (\<lambda>r. case cell_at r (index_of pc (columns df)) of Num x \<Rightarrow> x < 1 / 10 ^ 5 | _ \<Rightarrow> False) (rows df)\<rparr>"
proof -
  let ?c = "remove_na df pc"
  obtain ds where ds: "sort_values argsort ?c pc = Inr ds"
    and m: "mset (rows ds) = mset (rows ?c)" and c: "columns ds = columns ?c"
    using sort_values_perm [where argsort = argsort and df = ?c and key = pc, OF assms(4)] by blast
  note nostr = no_text_cleaned [OF assms(3)]
  let ?G = "select_mask ?c (map (cell_lt gw_threshold) (getcol ?c pc))"
  let ?S = "select_mask ?c (map (cell_lt suggestive_threshold) (getcol ?c pc))"
  have top: "files (fst (extract_top_snps read_csv argsort input_file pre n_top w0)) (pre @ ''/top_1000_snps.txt'') = Some (head ds n_top)"
      "files (fst (extract_top_snps read_csv argsort input_file pre n_top w0)) (pre @ ''/top_100_snps.txt'') = Some (head ds 100)"
    using extract_top_files [where read_csv = read_csv and input_file = input_file and argsort = argsort,
        OF assms(1,2) ds, of pre n_top w0] by simp_all
  have gs: "files (fst (extract_top_snps read_csv argsort input_file pre n_top w0)) (pre @ ''/genome_wide_significant_snps_5e-8.txt'') = Some ?G
      \<and> files (fst (extract_top_snps read_csv argsort input_file pre n_top w0)) (pre @ ''/suggestive_snps_1e-5.txt'') = Some ?S"
  proof (cases "\<forall>n \<in> set [''CHR'', ''SNP'', ''BP'', ''A1'', pc]. n \<in> set (columns df)")
    case True
    show ?thesis
      by (simp add: extract_files_Returned(2) [where read_csv = read_csv and input_file = input_file and argsort = argsort,
          OF assms(1,2) ds nostr True])
  next
    case False
    show ?thesis
      by (simp add: extract_files_KeyError(2) [where read_csv = read_csv and input_file = input_file and argsort = argsort,
          OF assms(1,2) ds nostr False])
  qed
  have h1: "head ds n_top = \<lparr>columns = columns df,
                    rows = (if 0 \<le> n_top then take (nat n_top) (rows ds) else take (length (rows ds) - nat (- n_top)) (rows ds))\<rparr>"
    using c by (simp add: head_def)
  have h2: "head ds 100 = \<lparr>columns = columns df, rows = take 100 (rows ds)\<rparr>"
    using c by (simp add: head_def)
  have g: "?G = \<lparr>columns = columns df,
                    rows = filter (\<lambda>r. case cell_at r (index_of pc (columns df)) of Num x \<Rightarrow> x < 5 / 10 ^ 8 | _ \<Rightarrow> False) (rows df)\<rparr>"
    by (rule dataframe_eqI) (simp, rule rows_gw)
  have s: "?S = \<lparr>columns = columns df,
                    rows = filter (\<lambda>r. case cell_at r (index_of pc (columns df)) of Num x \<Rightarrow> x < 1 / 10 ^ 5 | _ \<Rightarrow> False) (rows df)\<rparr>"
    by (rule dataframe_eqI) (simp, rule rows_suggestive)
  have "mset (rows ds) = mset (filter (\<lambda>r. cell_at r (index_of pc (columns df)) \<noteq> NA) (rows df))"
    using m by (simp add: rows_cleaned)
  then show ?thesis
    using top gs unfolding h1 h2 g s by blast
qed

lemma extract_complete_summary:
  assumes "read_csv input_file = Inr df" and "resolve_p_col df = Inr pc"
    and "\<forall>c \<in> set (getcol df pc). \<not> is_str c"
    and "permutation_of_range (argsort (getcol (remove_na df pc) pc)) (length (rows (remove_na df pc)))"
    and "{''CHR'', ''SNP'', ''BP'', ''A1''} \<subseteq> set (columns df)"
  shows "files (fst (extract_top_snps read_csv argsort input_file pre n_top w0)) (pre @ ''/summary_statistics.txt'')
           = Some \<lparr>columns = [''CHR'', ''SNP'', ''BP'', ''A1'', ''P''],
                    rows = map (\<lambda>r. [cell_at r (index_of ''CHR'' (columns df)), cell_at r (index_of ''SNP'' (columns df)),
                                     cell_at r (index_of ''BP'' (columns df)), cell_at r (index_of ''A1'' (columns df)),
                                     cell_at r (index_of pc (columns df))])
                             (filter (\<lambda>r. cell_at r (index_of pc (columns df)) \<noteq> NA) (rows df))\<rparr>"
    and "snd (extract_top_snps read_csv argsort input_file pre n_top w0) =
           Inr (Some (length (filter (\<lambda>r. case cell_at r (index_of pc (columns df)) of Num x \<Rightarrow> x < 5 / 10 ^ 8 | _ \<Rightarrow> False) (rows df)),
                      length (filter (\<lambda>r. case cell_at r (index_of pc (columns df)) of Num x \<Rightarrow> x < 1 / 10 ^ 5 | _ \<Rightarrow> False) (rows df))))"
proof -
  let ?c = "remove_na df pc"
  obtain ds where ds: "sort_values argsort ?c pc = Inr ds"
    using sort_values_perm [where argsort = argsort and df = ?c and key = pc, OF assms(4)] by blast
  note nostr = no_text_cleaned [OF assms(3)]
  have pcin: "pc \<in> set (columns df)"
    using assms(2) by (auto simp: resolve_p_col_def split: if_splits)
  have cols: "\<forall>n \<in> set [''CHR'', ''SNP'', ''BP'', ''A1'', pc]. n \<in> set (columns df)"
    using assms(5) pcin by simp
  note r = extract_files_Returned [where read_csv = read_csv and input_file = input_file and argsort = argsort,
      OF assms(1,2) ds nostr cols, of pre n_top w0]
  show "files (fst (extract_top_snps read_csv argsort input_file pre n_top w0)) (pre @ ''/summary_statistics.txt'')
           = Some \<lparr>columns = [''CHR'', ''SNP'', ''BP'', ''A1'', ''P''],
                    rows = map (\<lambda>r. [cell_at r (index_of ''CHR'' (columns df)), cell_at r (index_of ''SNP'' (columns df)),
                                     cell_at r (index_of ''BP'' (columns df)), cell_at r (index_of ''A1'' (columns df)),
                                     cell_at r (index_of pc (columns df))])
                             (filter (\<lambda>r. cell_at r (index_of pc (columns df)) \<noteq> NA) (rows df))\<rparr>"
    unfolding r(2) by (simp add: rows_cleaned project_row_def)
  show "snd (extract_top_snps read_csv argsort input_file pre n_top w0) =
           Inr (Some (length (filter (\<lambda>r. case cell_at r (index_of pc (columns df)) of Num x \<Rightarrow> x < 5 / 10 ^ 8 | _ \<Rightarrow> False) (rows df)),
                      length (filter (\<lambda>r. case cell_at r (index_of pc (columns df)) of Num x \<Rightarrow> x < 1 / 10 ^ 5 | _ \<Rightarrow> False) (rows df))))"
    unfolding r(1) by (simp only: rows_gw rows_suggestive)
qed

lemma manhattan_points_exact:
  assumes "read_csv assoc_file = Inr df" and "resolve_p_col df = Inr pc"
    and "\<forall>c \<in> set (getcol df pc). \<not> is_str c"
  shows "manhattan_plot_points read_csv assoc_file =
           Inr (map (\<lambda>r. (r, minus_log10 (cell_at r (index_of pc (columns df)))))
                 (filter (\<lambda>r. case cell_at r (index_of pc (columns df)) of Num x \<Rightarrow> 0 \<le> x | _ \<Rightarrow> False) (rows df)))"
proof -
  let ?i = "index_of pc (columns df)"
  have z: "filter (\<lambda>(r, y). y \<noteq> NaN) (zip xs (map (\<lambda>r. minus_log10 (cell_at r ?i)) xs)) =
        map (\<lambda>r. (r, minus_log10 (cell_at r ?i))) (filter (\<lambda>r. minus_log10 (cell_at r ?i) \<noteq> NaN) xs)" for xs
    by (induction xs) auto
  have k: "(x \<noteq> NA \<and> minus_log10 x \<noteq> NaN) = (case x of Num y \<Rightarrow> 0 \<le> y | _ \<Rightarrow> False)" for x
    by (cases x) (auto simp: minus_log10_def)
  have col: "getcol (remove_na df pc) pc = map (\<lambda>r. cell_at r ?i) (rows (remove_na df pc))"
    by (simp add: getcol_def)
  have "manhattan_plot_points read_csv assoc_file =
      Inr (filter (\<lambda>(r, y). y \<noteq> NaN) (zip (rows (remove_na df pc)) (map minus_log10 (getcol (remove_na df pc) pc))))"
    using assms(1,2) no_text_cleaned [OF assms(3)]
    by (simp add: manhattan_plot_points_def Let_def minus_log10_column_def)
  also have "\<dots> = Inr (map (\<lambda>r. (r, minus_log10 (cell_at r ?i)))
      (filter (\<lambda>r. minus_log10 (cell_at r ?i) \<noteq> NaN) (rows (remove_na df pc))))"
    unfolding col by (simp add: z o_def)
  also have "\<dots> = Inr (map (\<lambda>r. (r, minus_log10 (cell_at r ?i)))
      (filter (\<lambda>r. case cell_at r ?i of Num x \<Rightarrow> 0 \<le> x | _ \<Rightarrow> False) (rows df)))"
    by (simp add: rows_cleaned k conj_commute)
  finally show ?thesis .
qed

lemma positive_count: "length (filter (\<lambda>p. 0 < p) (num_values (filter notna cs))) = length (filter valid_p cs)"
  by (induction cs rule: num_values.induct) (auto simp: notna_def)

lemma qq_plot_pvals_Inr:
  assumes "read_csv assoc_file = Inr df" and "resolve_p_col df = Inr pc"
    and "\<forall>x \<in> set (getcol df pc). \<not> is_str x"
  shows "qq_plot_pvals read_csv assoc_file = Inr (filter (\<lambda>p. 0 < p) (num_values (getcol (remove_na df pc) pc)))"
  using assms by (auto simp: qq_plot_pvals_def Let_def getcol_remove_na)

lemma expected_quantiles_nth:
  "1 \<le> i \<Longrightarrow> i \<le> n \<Longrightarrow> expected_quantiles n ! (i - 1) = - log 10 (real i / real (n + 1))"
proof -
  assume i: "1 \<le> i" "i \<le> n"
  have len: "i - 1 < length [1 ..< n + 1]" using i by simp
  have "[1 ..< n + 1] ! (i - 1) = i" using i by (simp del: upt_Suc)
  then show ?thesis
    unfolding expected_quantiles_def using nth_map [OF len] by (simp del: upt_Suc)
qed

lemma expected_quantiles_3:
  "expected_quantiles 3 = [- log 10 (1 / 4), - log 10 (2 / 4), - log 10 (3 / 4)]"
proof -
  have "[1 ..< 3 + 1] = [1, 2, 3::nat]" by (simp add: upt_rec)
  then show ?thesis by (simp add: expected_quantiles_def)
qed

lemma middle_positions: "0 < (k::nat) \<Longrightarrow> (k - 1) div 2 < k \<and> min ((k - 1) div 2 + 1) (k - 1) < k"
  by (cases k) (auto simp: min_def)

lemma lerp_positive:
  assumes "0 < (x::real)" and "0 < y"
  shows "0 < x + (y - x) * 0 \<and> 0 < x + (y - x) * (1 / 2)"
proof
  show "0 < x + (y - x) * 0" using assms by simp
  have e: "x + (y - x) * (1 / 2) = x / 2 + y / 2" by (simp add: field_simps)
  have "0 < x / 2 + y / 2" using assms by (intro add_pos_pos) simp_all
  then show "0 < x + (y - x) * (1 / 2)" by (simp only: e)
qed

lemma percentile50_positive:
  assumes "a \<noteq> []" and "\<forall>p \<in> set a. 0 < p"
  shows "\<exists>c. percentile50 a = Some c \<and> 0 < c"
proof -
  let ?s = "sort a"
  let ?n = "length ?s"
  let ?lo = "(?n - 1) div 2"
  let ?hi = "min (?lo + 1) (?n - 1)"
  have n: "0 < ?n" using assms(1) by simp
  have "?lo < ?n" and "?hi < ?n" using middle_positions [OF n] by blast+
  then have "?s ! ?lo \<in> set ?s" and "?s ! ?hi \<in> set ?s"
    by (simp_all only: nth_mem)
  then have lo: "0 < ?s ! ?lo" and hi: "0 < ?s ! ?hi"
    using assms(2) by simp_all
  have "0 < ?s ! ?lo + (?s ! ?hi - ?s ! ?lo) * (if even ?n then 1 / 2 else 0)"
    using lerp_positive [OF lo hi] by (cases "even ?n") (simp_all only: if_True if_False)
  then show ?thesis
    using assms(1) by (simp only: percentile50_def Let_def if_False option.inject simp_thms ex_simps)
qed

section \<open>The extractor's outputs\<close>

subsection \<open>Which records are excluded\<close>

text \<open>
  A variant with p-value 0 is not missing, so the extractor keeps it; being below
  \<open>5e-8\<close> it is written to the genome-wide-significant table. The Manhattan renderer
  keeps it as well, with \<open>MINLOG10P = inf\<close>.
\<close>

theorem zero_p_retained_counterexample:
  "files (fst (extract_top_snps (\<lambda>f. Inr zero_p_table) ascending_argsort ''plink.assoc'' ''out'' 1000 empty_world)) ''out/genome_wide_significant_snps_5e-8.txt''
     = Some \<lparr>columns = [''CHR'', ''SNP'', ''BP'', ''A1'', ''P''],
              rows = [[Num 2, Str ''rs3'', Num 300, Str ''G'', Num 0]]\<rparr>
   \<and> manhattan_plot_points (\<lambda>f. Inr zero_p_table) ''plink.assoc''
     = Inr [([Num 1, Str ''rs1'', Num 100, Str ''A'', Num (1 / 2)], Fin (- log 10 (1 / 2))),
            ([Num 2, Str ''rs3'', Num 300, Str ''G'', Num 0], PInf),
            ([Num 2, Str ''rs4'', Num 400, Str ''T'', Num (1 / 4)], Fin (- log 10 (1 / 4))),
            ([Num 3, Str ''rs5'', Num 500, Str ''A'', Num (1 / 8)], Fin (- log 10 (1 / 8)))]"
proof
  show "files (fst (extract_top_snps (\<lambda>f. Inr zero_p_table) ascending_argsort ''plink.assoc'' ''out'' 1000 empty_world)) ''out/genome_wide_significant_snps_5e-8.txt''
     = Some \<lparr>columns = [''CHR'', ''SNP'', ''BP'', ''A1'', ''P''],
              rows = [[Num 2, Str ''rs3'', Num 300, Str ''G'', Num 0]]\<rparr>"
    by code_simp
  show "manhattan_plot_points (\<lambda>f. Inr zero_p_table) ''plink.assoc''
     = Inr [([Num 1, Str ''rs1'', Num 100, Str ''A'', Num (1 / 2)], Fin (- log 10 (1 / 2))),
            ([Num 2, Str ''rs3'', Num 300, Str ''G'', Num 0], PInf),
            ([Num 2, Str ''rs4'', Num 400, Str ''T'', Num (1 / 4)], Fin (- log 10 (1 / 4))),
            ([Num 3, Str ''rs5'', Num 500, Str ''A'', Num (1 / 8)], Fin (- log 10 (1 / 8)))]"
    by (simp add: manhattan_plot_points_def zero_p_table_def resolve_p_col_def remove_na_def select_mask_def
        getcol_def cell_at_def notna_def minus_log10_column_def minus_log10_def)
qed

text \<open>
  C2, as the code has it. The extractor drops the records whose p-value is missing and no
  others. Every table found at a path after a run was either there before, unchanged, or
  has a resolvable p-value column without a missing entry. On a table that is read, with
  a resolved p-value column without text and a library sort that returns a permutation:
  the two top tables are \<open>head\<close>s of one arrangement of all the records whose p-value is
  present; the two thresholded tables hold, in table order, the records whose p-value is
  a number strictly below \<open>5e-8\<close> and \<open>1e-5\<close>, whatever its sign; and with the columns
  \<open>CHR, SNP, BP, A1\<close> in the header the summary holds those four fields and the p-value
  of every record whose p-value is present. The Manhattan renderer keeps, in table order
  and with its \<open>-log10(p)\<close>, every record whose p-value is a number not below 0: the
  records with a missing p-value go before the logarithm is taken, those with a negative
  one after it, as their logarithm is NaN, and those with p-value 0 stay.
\<close>

theorem outputs_exclude_missing_p:
  "(files (fst (extract_top_snps read_csv argsort input_file pre n_top w0)) path = Some T \<longrightarrow>
      files w0 path = Some T \<or> (\<exists>ps. p_values T = Inr ps \<and> NA \<notin> set ps))
   \<and> (read_csv input_file = Inr df \<and> resolve_p_col df = Inr pc
        \<and> (\<forall>c \<in> set (getcol df pc). \<not> is_str c)
        \<and> permutation_of_range (argsort (getcol (remove_na df pc) pc)) (length (rows (remove_na df pc))) \<longrightarrow>
       (\<exists>ds. mset ds = mset (filter (\<lambda>r. cell_at r (index_of pc (columns df)) \<noteq> NA) (rows df))
          \<and> files (fst (extract_top_snps read_csv argsort input_file pre n_top w0)) (pre @ ''/top_1000_snps.txt'')
               = Some \<lparr>columns = columns df,
                        rows = (if 0 \<le> n_top then take (nat n_top) ds else take (length ds - nat (- n_top)) ds)\<rparr>
          \<and> files (fst (extract_top_snps read_csv argsort input_file pre n_top w0)) (pre @ ''/top_100_snps.txt'')
               = Some \<lparr>columns = columns df, rows = take 100 ds\<rparr>
          \<and> files (fst (extract_top_snps read_csv argsort input_file pre n_top w0)) (pre @ ''/genome_wide_significant_snps_5e-8.txt'')
               = Some \<lparr>columns = columns df,
                        rows = filter (\<lambda>r. case cell_at r (index_of pc (columns df)) of Num x \<Rightarrow> x < 5 / 10 ^ 8 | _ \<Rightarrow> False) (rows df)\<rparr>
          \<and> files (fst (extract_top_snps read_csv argsort input_file pre n_top w0)) (pre @ ''/suggestive_snps_1e-5.txt'')
               = Some \<lparr>columns = columns df,
                        rows = filter (\<lambda>r. case cell_at r (index_of pc (columns df)) of Num x \<Rightarrow> x < 1 / 10 ^ 5 | _ \<Rightarrow> False) (rows df)\<rparr>))
   \<and> (read_csv input_file = Inr df \<and> resolve_p_col df = Inr pc
        \<and> (\<forall>c \<in> set (getcol df pc). \<not> is_str c)
        \<and> permutation_of_range (argsort (getcol (remove_na df pc) pc)) (length (rows (remove_na df pc)))
        \<and> {''CHR'', ''SNP'', ''BP'', ''A1''} \<subseteq> set (columns df) \<longrightarrow>
       files (fst (extract_top_snps read_csv argsort input_file pre n_top w0)) (pre @ ''/summary_statistics.txt'')
         = Some \<lparr>columns = [''CHR'', ''SNP'', ''BP'', ''A1'', ''P''],
                  rows = map (\<lambda>r. [cell_at r (index_of ''CHR'' (columns df)), cell_at r (index_of ''SNP'' (columns df)),
                                   cell_at r (index_of ''BP'' (columns df)), cell_at r (index_of ''A1'' (columns df)),
                                   cell_at r (index_of pc (columns df))])
                           (filter (\<lambda>r. cell_at r (index_of pc (columns df)) \<noteq> NA) (rows df))\<rparr>)
   \<and> (read_csv input_file = Inr df \<and> resolve_p_col df = Inr pc
        \<and> (\<forall>c \<in> set (getcol df pc). \<not> is_str c) \<longrightarrow>
       manhattan_plot_points read_csv input_file =
         Inr (map (\<lambda>r. (r, minus_log10 (cell_at r (index_of pc (columns df)))))
               (filter (\<lambda>r. case cell_at r (index_of pc (columns df)) of Num x \<Rightarrow> 0 \<le> x | _ \<Rightarrow> False) (rows df))))"
proof (intro conjI impI)
  assume "files (fst (extract_top_snps read_csv argsort input_file pre n_top w0)) path = Some T"
  then show "files w0 path = Some T \<or> (\<exists>ps. p_values T = Inr ps \<and> NA \<notin> set ps)"
    by (rule extract_files_good)
next
  assume h: "read_csv input_file = Inr df \<and> resolve_p_col df = Inr pc
        \<and> (\<forall>c \<in> set (getcol df pc). \<not> is_str c)
        \<and> permutation_of_range (argsort (getcol (remove_na df pc) pc)) (length (rows (remove_na df pc)))"
  show "\<exists>ds. mset ds = mset (filter (\<lambda>r. cell_at r (index_of pc (columns df)) \<noteq> NA) (rows df))
          \<and> files (fst (extract_top_snps read_csv argsort input_file pre n_top w0)) (pre @ ''/top_1000_snps.txt'')
               = Some \<lparr>columns = columns df,
                        rows = (if 0 \<le> n_top then take (nat n_top) ds else take (length ds - nat (- n_top)) ds)\<rparr>
          \<and> files (fst (extract_top_snps read_csv argsort input_file pre n_top w0)) (pre @ ''/top_100_snps.txt'')
               = Some \<lparr>columns = columns df, rows = take 100 ds\<rparr>
          \<and> files (fst (extract_top_snps read_csv argsort input_file pre n_top w0)) (pre @ ''/genome_wide_significant_snps_5e-8.txt'')
               = Some \<lparr>columns = columns df,
                        rows = filter (\<lambda>r. case cell_at r (index_of pc (columns df)) of Num x \<Rightarrow> x < 5 / 10 ^ 8 | _ \<Rightarrow> False) (rows df)\<rparr>
          \<and> files (fst (extract_top_snps read_csv argsort input_file pre n_top w0)) (pre @ ''/suggestive_snps_1e-5.txt'')
               = Some \<lparr>columns = columns df,
                        rows = filter (\<lambda>r. case cell_at r (index_of pc (columns df)) of Num x \<Rightarrow> x < 1 / 10 ^ 5 | _ \<Rightarrow> False) (rows df)\<rparr>"
    using h by (intro extract_complete_files [where read_csv = read_csv and argsort = argsort]) simp_all
next
  assume h: "read_csv input_file = Inr df \<and> resolve_p_col df = Inr pc
        \<and> (\<forall>c \<in> set (getcol df pc). \<not> is_str c)
        \<and> permutation_of_range (argsort (getcol (remove_na df pc) pc)) (length (rows (remove_na df pc)))
        \<and> {''CHR'', ''SNP'', ''BP'', ''A1''} \<subseteq> set (columns df)"
  show "files (fst (extract_top_snps read_csv argsort input_file pre n_top w0)) (pre @ ''/summary_statistics.txt'')
         = Some \<lparr>columns = [''CHR'', ''SNP'', ''BP'', ''A1'', ''P''],
                  rows = map (\<lambda>r. [cell_at r (index_of ''CHR'' (columns df)), cell_at r (index_of ''SNP'' (columns df)),
                                   cell_at r (index_of ''BP'' (columns df)), cell_at r (index_of ''A1'' (columns df)),
                                   cell_at r (index_of pc (columns df))])
                           (filter (\<lambda>r. cell_at r (index_of pc (columns df)) \<noteq> NA) (rows df))\<rparr>"
    using h by (intro extract_complete_summary(1) [where read_csv = read_csv and argsort = argsort]) simp_all
next
  assume h: "read_csv input_file = Inr df \<and> resolve_p_col df = Inr pc
        \<and> (\<forall>c \<in> set (getcol df pc). \<not> is_str c)"
  show "manhattan_plot_points read_csv input_file =
         Inr (map (\<lambda>r. (r, minus_log10 (cell_at r (index_of pc (columns df)))))
               (filter (\<lambda>r. case cell_at r (index_of pc (columns df)) of Num x \<Rightarrow> 0 \<le> x | _ \<Rightarrow> False) (rows df)))"
    using h by (intro manhattan_points_exact) simp_all
qed

text \<open>The table with a missing and a zero p-value, and its genome-wide-significant table.\<close>

theorem outputs_exclude_missing_p_witness:
  "(files (fst (extract_top_snps (\<lambda>f. Inr zero_p_table) ascending_argsort ''plink.assoc'' ''out'' 1000 empty_world)) (''out'' @ ''/genome_wide_significant_snps_5e-8.txt'')
       = Some \<lparr>columns = [''CHR'', ''SNP'', ''BP'', ''A1'', ''P''],
              rows = [[Num 2, Str ''rs3'', Num 300, Str ''G'', Num 0]]\<rparr>
     \<and> (\<exists>ps. p_values \<lparr>columns = [''CHR'', ''SNP'', ''BP'', ''A1'', ''P''],
              rows = [[Num 2, Str ''rs3'', Num 300, Str ''G'', Num 0]]\<rparr> = Inr ps \<and> NA \<notin> set ps))
   \<and> (\<exists>ds. mset ds = mset (filter (\<lambda>r. cell_at r (index_of ''P'' (columns zero_p_table)) \<noteq> NA) (rows zero_p_table))
          \<and> files (fst (extract_top_snps (\<lambda>f. Inr zero_p_table) ascending_argsort ''plink.assoc'' ''out'' 1000 empty_world)) (''out'' @ ''/top_1000_snps.txt'')
               = Some \<lparr>columns = columns zero_p_table,
                        rows = (if 0 \<le> (1000::int) then take (nat 1000) ds else take (length ds - nat (- 1000)) ds)\<rparr>
          \<and> files (fst (extract_top_snps (\<lambda>f. Inr zero_p_table) ascending_argsort ''plink.assoc'' ''out'' 1000 empty_world)) (''out'' @ ''/top_100_snps.txt'')
               = Some \<lparr>columns = columns zero_p_table, rows = take 100 ds\<rparr>
          \<and> files (fst (extract_top_snps (\<lambda>f. Inr zero_p_table) ascending_argsort ''plink.assoc'' ''out'' 1000 empty_world)) (''out'' @ ''/genome_wide_significant_snps_5e-8.txt'')
               = Some \<lparr>columns = columns zero_p_table,
                        rows = filter (\<lambda>r. case cell_at r (index_of ''P'' (columns zero_p_table)) of Num x \<Rightarrow> x < 5 / 10 ^ 8 | _ \<Rightarrow> False) (rows zero_p_table)\<rparr>
          \<and> files (fst (extract_top_snps (\<lambda>f. Inr zero_p_table) ascending_argsort ''plink.assoc'' ''out'' 1000 empty_world)) (''out'' @ ''/suggestive_snps_1e-5.txt'')
               = Some \<lparr>columns = columns zero_p_table,
                        rows = filter (\<lambda>r. case cell_at r (index_of ''P'' (columns zero_p_table)) of Num x \<Rightarrow> x < 1 / 10 ^ 5 | _ \<Rightarrow> False) (rows zero_p_table)\<rparr>)
   \<and> files (fst (extract_top_snps (\<lambda>f. Inr zero_p_table) ascending_argsort ''plink.assoc'' ''out'' 1000 empty_world)) (''out'' @ ''/summary_statistics.txt'')
         = Some \<lparr>columns = [''CHR'', ''SNP'', ''BP'', ''A1'', ''P''],
                  rows = map (\<lambda>r. [cell_at r (index_of ''CHR'' (columns zero_p_table)), cell_at r (index_of ''SNP'' (columns zero_p_table)),
                                   cell_at r (index_of ''BP'' (columns zero_p_table)), cell_at r (index_of ''A1'' (columns zero_p_table)),
                                   cell_at r (index_of ''P'' (columns zero_p_table))])
                           (filter (\<lambda>r. cell_at r (index_of ''P'' (columns zero_p_table)) \<noteq> NA) (rows zero_p_table))\<rparr>
   \<and> manhattan_plot_points (\<lambda>f. Inr zero_p_table) ''plink.assoc'' =
         Inr (map (\<lambda>r. (r, minus_log10 (cell_at r (index_of ''P'' (columns zero_p_table)))))
               (filter (\<lambda>r. case cell_at r (index_of ''P'' (columns zero_p_table)) of Num x \<Rightarrow> 0 \<le> x | _ \<Rightarrow> False) (rows zero_p_table)))"
proof -
  let ?T = "\<lparr>columns = [''CHR'', ''SNP'', ''BP'', ''A1'', ''P''],
              rows = [[Num 2, Str ''rs3'', Num 300, Str ''G'', Num 0]]\<rparr>"
  have h1: "(\<lambda>f. Inr zero_p_table :: string + dataframe) ''plink.assoc'' = Inr zero_p_table"
    by simp
  have h2: "resolve_p_col zero_p_table = Inr ''P''"
    by code_simp
  have h3: "\<forall>c \<in> set (getcol zero_p_table ''P''). \<not> is_str c"
    by code_simp
  have h4: "permutation_of_range (ascending_argsort (getcol (remove_na zero_p_table ''P'') ''P''))
              (length (rows (remove_na zero_p_table ''P'')))"
    by code_simp
  have h5: "{''CHR'', ''SNP'', ''BP'', ''A1''} \<subseteq> set (columns zero_p_table)"
    by (simp add: zero_p_table_def)
  have f: "files (fst (extract_top_snps (\<lambda>f. Inr zero_p_table) ascending_argsort ''plink.assoc'' ''out'' 1000 empty_world)) (''out'' @ ''/genome_wide_significant_snps_5e-8.txt'') = Some ?T"
    by code_simp
  have e: "files empty_world (''out'' @ ''/genome_wide_significant_snps_5e-8.txt'') \<noteq> Some ?T"
    by (simp add: empty_world_def)
  note t = outputs_exclude_missing_p [where read_csv = "\<lambda>f. Inr zero_p_table" and argsort = ascending_argsort and input_file = "''plink.assoc''"
        and pre = "''out''" and n_top = 1000 and ?w0.0 = empty_world and df = zero_p_table and pc = "''P''"
        and path = "''out'' @ ''/genome_wide_significant_snps_5e-8.txt''" and T = ?T]
  have "files empty_world (''out'' @ ''/genome_wide_significant_snps_5e-8.txt'') = Some ?T
        \<or> (\<exists>ps. p_values ?T = Inr ps \<and> NA \<notin> set ps)"
    using f by (rule mp [OF conjunct1 [OF t]])
  then have c1: "\<exists>ps. p_values ?T = Inr ps \<and> NA \<notin> set ps"
    using e by (elim disjE) (rule notE)
  have a2: "(\<lambda>f. Inr zero_p_table :: string + dataframe) ''plink.assoc'' = Inr zero_p_table \<and> resolve_p_col zero_p_table = Inr ''P''
        \<and> (\<forall>c \<in> set (getcol zero_p_table ''P''). \<not> is_str c)
        \<and> permutation_of_range (ascending_argsort (getcol (remove_na zero_p_table ''P'') ''P''))
             (length (rows (remove_na zero_p_table ''P'')))"
    by (intro conjI h1 h2 h3 h4)
  have a3: "(\<lambda>f. Inr zero_p_table :: string + dataframe) ''plink.assoc'' = Inr zero_p_table \<and> resolve_p_col zero_p_table = Inr ''P''
        \<and> (\<forall>c \<in> set (getcol zero_p_table ''P''). \<not> is_str c)
        \<and> permutation_of_range (ascending_argsort (getcol (remove_na zero_p_table ''P'') ''P''))
             (length (rows (remove_na zero_p_table ''P'')))
        \<and> {''CHR'', ''SNP'', ''BP'', ''A1''} \<subseteq> set (columns zero_p_table)"
    by (intro conjI h1 h2 h3 h4 h5)
  have a4: "(\<lambda>f. Inr zero_p_table :: string + dataframe) ''plink.assoc'' = Inr zero_p_table \<and> resolve_p_col zero_p_table = Inr ''P''
        \<and> (\<forall>c \<in> set (getcol zero_p_table ''P''). \<not> is_str c)"
    by (intro conjI h1 h2 h3)
  have c2: "(\<exists>ds. mset ds = mset (filter (\<lambda>r. cell_at r (index_of ''P'' (columns zero_p_table)) \<noteq> NA) (rows zero_p_table))
          \<and> files (fst (extract_top_snps (\<lambda>f. Inr zero_p_table) ascending_argsort ''plink.assoc'' ''out'' 1000 empty_world)) (''out'' @ ''/top_1000_snps.txt'')
               = Some \<lparr>columns = columns zero_p_table,
                        rows = (if 0 \<le> (1000::int) then take (nat 1000) ds else take (length ds - nat (- 1000)) ds)\<rparr>
          \<and> files (fst (extract_top_snps (\<lambda>f. Inr zero_p_table) ascending_argsort ''plink.assoc'' ''out'' 1000 empty_world)) (''out'' @ ''/top_100_snps.txt'')
               = Some \<lparr>columns = columns zero_p_table, rows = take 100 ds\<rparr>
          \<and> files (fst (extract_top_snps (\<lambda>f. Inr zero_p_table) ascending_argsort ''plink.assoc'' ''out'' 1000 empty_world)) (''out'' @ ''/genome_wide_significant_snps_5e-8.txt'')
               = Some \<lparr>columns = columns zero_p_table,
                        rows = filter (\<lambda>r. case cell_at r (index_of ''P'' (columns zero_p_table)) of Num x \<Rightarrow> x < 5 / 10 ^ 8 | _ \<Rightarrow> False) (rows zero_p_table)\<rparr>
          \<and> files (fst (extract_top_snps (\<lambda>f. Inr zero_p_table) ascending_argsort ''plink.assoc'' ''out'' 1000 empty_world)) (''out'' @ ''/suggestive_snps_1e-5.txt'')
               = Some \<lparr>columns = columns zero_p_table,
                        rows = filter (\<lambda>r. case cell_at r (index_of ''P'' (columns zero_p_table)) of Num x \<Rightarrow> x < 1 / 10 ^ 5 | _ \<Rightarrow> False) (rows zero_p_table)\<rparr>)"
    using a2 by (rule mp [OF conjunct1 [OF conjunct2 [OF t]]])
  have c3: "files (fst (extract_top_snps (\<lambda>f. Inr zero_p_table) ascending_argsort ''plink.assoc'' ''out'' 1000 empty_world)) (''out'' @ ''/summary_statistics.txt'')
         = Some \<lparr>columns = [''CHR'', ''SNP'', ''BP'', ''A1'', ''P''],
                  rows = map (\<lambda>r. [cell_at r (index_of ''CHR'' (columns zero_p_table)), cell_at r (index_of ''SNP'' (columns zero_p_table)),
                                   cell_at r (index_of ''BP'' (columns zero_p_table)), cell_at r (index_of ''A1'' (columns zero_p_table)),
                                   cell_at r (index_of ''P'' (columns zero_p_table))])
                           (filter (\<lambda>r. cell_at r (index_of ''P'' (columns zero_p_table)) \<noteq> NA) (rows zero_p_table))\<rparr>"
    using a3 by (rule mp [OF conjunct1 [OF conjunct2 [OF conjunct2 [OF t]]]])
  have c4: "manhattan_plot_points (\<lambda>f. Inr zero_p_table) ''plink.assoc'' =
         Inr (map (\<lambda>r. (r, minus_log10 (cell_at r (index_of ''P'' (columns zero_p_table)))))
               (filter (\<lambda>r. case cell_at r (index_of ''P'' (columns zero_p_table)) of Num x \<Rightarrow> 0 \<le> x | _ \<Rightarrow> False) (rows zero_p_table)))"
    using a4 by (rule mp [OF conjunct2 [OF conjunct2 [OF conjunct2 [OF t]]]])
  show ?thesis
    using f c1 c2 c3 c4 by (intro conjI)
qed

subsection \<open>Thresholded tables and the summary\<close>

text \<open>
  A table without the column \<open>A1\<close>: the variant with p-value 4e-9 is written to the
  genome-wide-significant and to the suggestive table, then the summary step raises
  KeyError and no summary is written.
\<close>

theorem summary_missing_counterexample:
  "files (fst (extract_top_snps (\<lambda>f. Inr no_allele_table) ascending_argsort ''plink.assoc'' ''out'' 1000 empty_world)) ''out/genome_wide_significant_snps_5e-8.txt''
     = Some \<lparr>columns = [''CHR'', ''SNP'', ''BP'', ''P''], rows = [[Num 2, Str ''rs3'', Num 300, Num (1 / 250000000)]]\<rparr>
   \<and> files (fst (extract_top_snps (\<lambda>f. Inr no_allele_table) ascending_argsort ''plink.assoc'' ''out'' 1000 empty_world)) ''out/suggestive_snps_1e-5.txt''
     = Some \<lparr>columns = [''CHR'', ''SNP'', ''BP'', ''P''], rows = [[Num 2, Str ''rs3'', Num 300, Num (1 / 250000000)]]\<rparr>
   \<and> files (fst (extract_top_snps (\<lambda>f. Inr no_allele_table) ascending_argsort ''plink.assoc'' ''out'' 1000 empty_world)) ''out/summary_statistics.txt'' = None
   \<and> snd (extract_top_snps (\<lambda>f. Inr no_allele_table) ascending_argsort ''plink.assoc'' ''out'' 1000 empty_world) = Inl KeyError"
  by code_simp

text \<open>
  C3, as the code has it. On a table that is read, with a resolved p-value column
  without text and a library sort that returns a permutation, both thresholded tables are
  written: the genome-wide-significant one holds the records with p strictly below
  \<open>5e-8\<close>, the suggestive one those with p strictly below \<open>1e-5\<close>, and every record of
  the former is a record of the latter. If moreover \<open>CHR\<close>, \<open>SNP\<close>, \<open>BP\<close> and \<open>A1\<close>
  are in the header, the summary is written under the header \<open>CHR, SNP, BP, A1, P\<close>, it
  holds those four fields and the p-value of every record of either table, and the
  extractor returns the two tables' numbers of rows.
\<close>

theorem significant_within_suggestive_within_summary:
  "(read_csv input_file = Inr df \<and> resolve_p_col df = Inr pc
        \<and> (\<forall>c \<in> set (getcol df pc). \<not> is_str c)
        \<and> permutation_of_range (argsort (getcol (remove_na df pc) pc)) (length (rows (remove_na df pc))) \<longrightarrow>
     (\<exists>G S. files (fst (extract_top_snps read_csv argsort input_file pre n_top w0))
                (pre @ ''/genome_wide_significant_snps_5e-8.txt'') = Some G
        \<and> files (fst (extract_top_snps read_csv argsort input_file pre n_top w0))
                (pre @ ''/suggestive_snps_1e-5.txt'') = Some S
        \<and> rows G = filter (\<lambda>r. case cell_at r (index_of pc (columns df)) of Num x \<Rightarrow> x < 5 / 10 ^ 8 | _ \<Rightarrow> False) (rows df)
        \<and> rows S = filter (\<lambda>r. case cell_at r (index_of pc (columns df)) of Num x \<Rightarrow> x < 1 / 10 ^ 5 | _ \<Rightarrow> False) (rows df)
        \<and> set (rows G) \<subseteq> set (rows S)))
   \<and> (read_csv input_file = Inr df \<and> resolve_p_col df = Inr pc
        \<and> (\<forall>c \<in> set (getcol df pc). \<not> is_str c)
        \<and> permutation_of_range (argsort (getcol (remove_na df pc) pc)) (length (rows (remove_na df pc)))
        \<and> {''CHR'', ''SNP'', ''BP'', ''A1''} \<subseteq> set (columns df) \<longrightarrow>
     (\<exists>G S M. files (fst (extract_top_snps read_csv argsort input_file pre n_top w0))
                (pre @ ''/genome_wide_significant_snps_5e-8.txt'') = Some G
        \<and> files (fst (extract_top_snps read_csv argsort input_file pre n_top w0))
                (pre @ ''/suggestive_snps_1e-5.txt'') = Some S
        \<and> files (fst (extract_top_snps read_csv argsort input_file pre n_top w0))
                (pre @ ''/summary_statistics.txt'') = Some M
        \<and> columns M = [''CHR'', ''SNP'', ''BP'', ''A1'', ''P'']
        \<and> (\<lambda>r. [cell_at r (index_of ''CHR'' (columns df)), cell_at r (index_of ''SNP'' (columns df)),
                 cell_at r (index_of ''BP'' (columns df)), cell_at r (index_of ''A1'' (columns df)),
                 cell_at r (index_of pc (columns df))]) ` (set (rows G) \<union> set (rows S)) \<subseteq> set (rows M)
        \<and> snd (extract_top_snps read_csv argsort input_file pre n_top w0) = Inr (Some (length (rows G), length (rows S)))))"
proof (intro conjI impI)
  assume h: "read_csv input_file = Inr df \<and> resolve_p_col df = Inr pc
        \<and> (\<forall>c \<in> set (getcol df pc). \<not> is_str c)
        \<and> permutation_of_range (argsort (getcol (remove_na df pc) pc)) (length (rows (remove_na df pc)))"
  let ?G = "\<lparr>columns = columns df,
             rows = filter (\<lambda>r. case cell_at r (index_of pc (columns df)) of Num x \<Rightarrow> x < 5 / 10 ^ 8 | _ \<Rightarrow> False) (rows df)\<rparr>"
  let ?S = "\<lparr>columns = columns df,
             rows = filter (\<lambda>r. case cell_at r (index_of pc (columns df)) of Num x \<Rightarrow> x < 1 / 10 ^ 5 | _ \<Rightarrow> False) (rows df)\<rparr>"
  have f: "files (fst (extract_top_snps read_csv argsort input_file pre n_top w0))
                (pre @ ''/genome_wide_significant_snps_5e-8.txt'') = Some ?G"
      "files (fst (extract_top_snps read_csv argsort input_file pre n_top w0))
                (pre @ ''/suggestive_snps_1e-5.txt'') = Some ?S"
    using extract_complete_files [where read_csv = read_csv and argsort = argsort and input_file = input_file
        and df = df and pc = pc and pre = pre and n_top = n_top and ?w0.0 = w0] h
    by blast+
  have "set (rows ?G) \<subseteq> set (rows ?S)"
    by (auto split: cell.splits)
  then show "\<exists>G S. files (fst (extract_top_snps read_csv argsort input_file pre n_top w0))
                (pre @ ''/genome_wide_significant_snps_5e-8.txt'') = Some G
        \<and> files (fst (extract_top_snps read_csv argsort input_file pre n_top w0))
                (pre @ ''/suggestive_snps_1e-5.txt'') = Some S
        \<and> rows G = filter (\<lambda>r. case cell_at r (index_of pc (columns df)) of Num x \<Rightarrow> x < 5 / 10 ^ 8 | _ \<Rightarrow> False) (rows df)
        \<and> rows S = filter (\<lambda>r. case cell_at r (index_of pc (columns df)) of Num x \<Rightarrow> x < 1 / 10 ^ 5 | _ \<Rightarrow> False) (rows df)
        \<and> set (rows G) \<subseteq> set (rows S)"
    using f by (intro exI [of _ ?G] exI [of _ ?S]) simp
next
  assume h: "read_csv input_file = Inr df \<and> resolve_p_col df = Inr pc
        \<and> (\<forall>c \<in> set (getcol df pc). \<not> is_str c)
        \<and> permutation_of_range (argsort (getcol (remove_na df pc) pc)) (length (rows (remove_na df pc)))
        \<and> {''CHR'', ''SNP'', ''BP'', ''A1''} \<subseteq> set (columns df)"
  let ?G = "\<lparr>columns = columns df,
             rows = filter (\<lambda>r. case cell_at r (index_of pc (columns df)) of Num x \<Rightarrow> x < 5 / 10 ^ 8 | _ \<Rightarrow> False) (rows df)\<rparr>"
  let ?S = "\<lparr>columns = columns df,
             rows = filter (\<lambda>r. case cell_at r (index_of pc (columns df)) of Num x \<Rightarrow> x < 1 / 10 ^ 5 | _ \<Rightarrow> False) (rows df)\<rparr>"
  let ?M = "\<lparr>columns = [''CHR'', ''SNP'', ''BP'', ''A1'', ''P''],
                  rows = map (\<lambda>r. [cell_at r (index_of ''CHR'' (columns df)), cell_at r (index_of ''SNP'' (columns df)),
                                   cell_at r (index_of ''BP'' (columns df)), cell_at r (index_of ''A1'' (columns df)),
                                   cell_at r (index_of pc (columns df))])
                           (filter (\<lambda>r. cell_at r (index_of pc (columns df)) \<noteq> NA) (rows df))\<rparr>"
  have f: "files (fst (extract_top_snps read_csv argsort input_file pre n_top w0))
                (pre @ ''/genome_wide_significant_snps_5e-8.txt'') = Some ?G"
      "files (fst (extract_top_snps read_csv argsort input_file pre n_top w0))
                (pre @ ''/suggestive_snps_1e-5.txt'') = Some ?S"
    using extract_complete_files [where read_csv = read_csv and argsort = argsort and input_file = input_file
        and df = df and pc = pc and pre = pre and n_top = n_top and ?w0.0 = w0] h
    by blast+
  have m: "files (fst (extract_top_snps read_csv argsort input_file pre n_top w0))
                (pre @ ''/summary_statistics.txt'') = Some ?M"
    using h by (intro extract_complete_summary(1) [where read_csv = read_csv and argsort = argsort]) simp_all
  have c: "snd (extract_top_snps read_csv argsort input_file pre n_top w0) = Inr (Some (length (rows ?G), length (rows ?S)))"
    using extract_complete_summary(2) [where read_csv = read_csv and argsort = argsort and input_file = input_file
        and df = df and pc = pc and pre = pre and n_top = n_top and ?w0.0 = w0] h
    by simp
  have sub: "(\<lambda>r. [cell_at r (index_of ''CHR'' (columns df)), cell_at r (index_of ''SNP'' (columns df)),
                 cell_at r (index_of ''BP'' (columns df)), cell_at r (index_of ''A1'' (columns df)),
                 cell_at r (index_of pc (columns df))]) ` (set (rows ?G) \<union> set (rows ?S)) \<subseteq> set (rows ?M)"
  proof -
    have "set (rows ?G) \<union> set (rows ?S) \<subseteq> set (filter (\<lambda>r. cell_at r (index_of pc (columns df)) \<noteq> NA) (rows df))"
      by (auto dest: below_present)
    then show ?thesis
      by (simp only: dataframe.simps set_map image_mono)
  qed
  show "\<exists>G S M. files (fst (extract_top_snps read_csv argsort input_file pre n_top w0))
                (pre @ ''/genome_wide_significant_snps_5e-8.txt'') = Some G
        \<and> files (fst (extract_top_snps read_csv argsort input_file pre n_top w0))
                (pre @ ''/suggestive_snps_1e-5.txt'') = Some S
        \<and> files (fst (extract_top_snps read_csv argsort input_file pre n_top w0))
                (pre @ ''/summary_statistics.txt'') = Some M
        \<and> columns M = [''CHR'', ''SNP'', ''BP'', ''A1'', ''P'']
        \<and> (\<lambda>r. [cell_at r (index_of ''CHR'' (columns df)), cell_at r (index_of ''SNP'' (columns df)),
                 cell_at r (index_of ''BP'' (columns df)), cell_at r (index_of ''A1'' (columns df)),
                 cell_at r (index_of pc (columns df))]) ` (set (rows G) \<union> set (rows S)) \<subseteq> set (rows M)
        \<and> snd (extract_top_snps read_csv argsort input_file pre n_top w0) = Inr (Some (length (rows G), length (rows S)))"
    using f m c sub by (intro exI [of _ ?G] exI [of _ ?S] exI [of _ ?M] conjI) simp_all
qed

text \<open>On the example table the counts are 1 and 3.\<close>

theorem significant_within_suggestive_within_summary_witness:
  "(\<exists>G S. files (fst (extract_top_snps (\<lambda>f. Inr example_table) ascending_argsort ''plink.assoc'' ''out'' 1000 empty_world))
                (''out'' @ ''/genome_wide_significant_snps_5e-8.txt'') = Some G
        \<and> files (fst (extract_top_snps (\<lambda>f. Inr example_table) ascending_argsort ''plink.assoc'' ''out'' 1000 empty_world))
                (''out'' @ ''/suggestive_snps_1e-5.txt'') = Some S
        \<and> rows G = filter (\<lambda>r. case cell_at r (index_of ''P'' (columns example_table)) of Num x \<Rightarrow> x < 5 / 10 ^ 8 | _ \<Rightarrow> False) (rows example_table)
        \<and> rows S = filter (\<lambda>r. case cell_at r (index_of ''P'' (columns example_table)) of Num x \<Rightarrow> x < 1 / 10 ^ 5 | _ \<Rightarrow> False) (rows example_table)
        \<and> set (rows G) \<subseteq> set (rows S))
   \<and> (\<exists>G S M. files (fst (extract_top_snps (\<lambda>f. Inr example_table) ascending_argsort ''plink.assoc'' ''out'' 1000 empty_world))
                (''out'' @ ''/genome_wide_significant_snps_5e-8.txt'') = Some G
        \<and> files (fst (extract_top_snps (\<lambda>f. Inr example_table) ascending_argsort ''plink.assoc'' ''out'' 1000 empty_world))
                (''out'' @ ''/suggestive_snps_1e-5.txt'') = Some S
        \<and> files (fst (extract_top_snps (\<lambda>f. Inr example_table) ascending_argsort ''plink.assoc'' ''out'' 1000 empty_world))
                (''out'' @ ''/summary_statistics.txt'') = Some M
        \<and> columns M = [''CHR'', ''SNP'', ''BP'', ''A1'', ''P'']
        \<and> (\<lambda>r. [cell_at r (index_of ''CHR'' (columns example_table)), cell_at r (index_of ''SNP'' (columns example_table)),
                 cell_at r (index_of ''BP'' (columns example_table)), cell_at r (index_of ''A1'' (columns example_table)),
                 cell_at r (index_of ''P'' (columns example_table))]) ` (set (rows G) \<union> set (rows S)) \<subseteq> set (rows M)
        \<and> snd (extract_top_snps (\<lambda>f. Inr example_table) ascending_argsort ''plink.assoc'' ''out'' 1000 empty_world) = Inr (Some (length (rows G), length (rows S))))
   \<and> snd (extract_top_snps (\<lambda>f. Inr example_table) ascending_argsort ''plink.assoc'' ''out'' 1000 empty_world) = Inr (Some (1, 3))"
proof -
  have h1: "(\<lambda>f. Inr example_table :: string + dataframe) ''plink.assoc'' = Inr example_table"
    by simp
  have h2: "resolve_p_col example_table = Inr ''P''"
    by code_simp
  have h3: "\<forall>c \<in> set (getcol example_table ''P''). \<not> is_str c"
    by code_simp
  have h4: "permutation_of_range (ascending_argsort (getcol (remove_na example_table ''P'') ''P''))
              (length (rows (remove_na example_table ''P'')))"
    by code_simp
  have h5: "{''CHR'', ''SNP'', ''BP'', ''A1''} \<subseteq> set (columns example_table)"
    by (simp add: example_table_def)
  note t = significant_within_suggestive_within_summary [where read_csv = "\<lambda>f. Inr example_table" and argsort = ascending_argsort and input_file = "''plink.assoc''"
        and pre = "''out''" and n_top = 1000 and ?w0.0 = empty_world and df = example_table and pc = "''P''"]
  have a1: "(\<lambda>f. Inr example_table :: string + dataframe) ''plink.assoc'' = Inr example_table \<and> resolve_p_col example_table = Inr ''P''
        \<and> (\<forall>c \<in> set (getcol example_table ''P''). \<not> is_str c)
        \<and> permutation_of_range (ascending_argsort (getcol (remove_na example_table ''P'') ''P''))
             (length (rows (remove_na example_table ''P'')))"
    by (intro conjI h1 h2 h3 h4)
  have a2: "(\<lambda>f. Inr example_table :: string + dataframe) ''plink.assoc'' = Inr example_table \<and> resolve_p_col example_table = Inr ''P''
        \<and> (\<forall>c \<in> set (getcol example_table ''P''). \<not> is_str c)
        \<and> permutation_of_range (ascending_argsort (getcol (remove_na example_table ''P'') ''P''))
             (length (rows (remove_na example_table ''P'')))
        \<and> {''CHR'', ''SNP'', ''BP'', ''A1''} \<subseteq> set (columns example_table)"
    by (intro conjI h1 h2 h3 h4 h5)
  have c1: "(\<exists>G S. files (fst (extract_top_snps (\<lambda>f. Inr example_table) ascending_argsort ''plink.assoc'' ''out'' 1000 empty_world))
                (''out'' @ ''/genome_wide_significant_snps_5e-8.txt'') = Some G
        \<and> files (fst (extract_top_snps (\<lambda>f. Inr example_table) ascending_argsort ''plink.assoc'' ''out'' 1000 empty_world))
                (''out'' @ ''/suggestive_snps_1e-5.txt'') = Some S
        \<and> rows G = filter (\<lambda>r. case cell_at r (index_of ''P'' (columns example_table)) of Num x \<Rightarrow> x < 5 / 10 ^ 8 | _ \<Rightarrow> False) (rows example_table)
        \<and> rows S = filter (\<lambda>r. case cell_at r (index_of ''P'' (columns example_table)) of Num x \<Rightarrow> x < 1 / 10 ^ 5 | _ \<Rightarrow> False) (rows example_table)
        \<and> set (rows G) \<subseteq> set (rows S))"
    using a1 by (rule mp [OF conjunct1 [OF t]])
  have c2: "(\<exists>G S M. files (fst (extract_top_snps (\<lambda>f. Inr example_table) ascending_argsort ''plink.assoc'' ''out'' 1000 empty_world))
                (''out'' @ ''/genome_wide_significant_snps_5e-8.txt'') = Some G
        \<and> files (fst (extract_top_snps (\<lambda>f. Inr example_table) ascending_argsort ''plink.assoc'' ''out'' 1000 empty_world))
                (''out'' @ ''/suggestive_snps_1e-5.txt'') = Some S
        \<and> files (fst (extract_top_snps (\<lambda>f. Inr example_table) ascending_argsort ''plink.assoc'' ''out'' 1000 empty_world))
                (''out'' @ ''/summary_statistics.txt'') = Some M
        \<and> columns M = [''CHR'', ''SNP'', ''BP'', ''A1'', ''P'']
        \<and> (\<lambda>r. [cell_at r (index_of ''CHR'' (columns example_table)), cell_at r (index_of ''SNP'' (columns example_table)),
                 cell_at r (index_of ''BP'' (columns example_table)), cell_at r (index_of ''A1'' (columns example_table)),
                 cell_at r (index_of ''P'' (columns example_table))]) ` (set (rows G) \<union> set (rows S)) \<subseteq> set (rows M)
        \<and> snd (extract_top_snps (\<lambda>f. Inr example_table) ascending_argsort ''plink.assoc'' ''out'' 1000 empty_world) = Inr (Some (length (rows G), length (rows S))))"
    using a2 by (rule mp [OF conjunct2 [OF t]])
  have c3: "snd (extract_top_snps (\<lambda>f. Inr example_table) ascending_argsort ''plink.assoc'' ''out'' 1000 empty_world) = Inr (Some (1, 3))"
    by code_simp
  show ?thesis
    using c1 c2 c3 by (intro conjI)
qed

subsection \<open>The two top tables\<close>

text \<open>
  With \<open>n_top = 1\<close> the table written to \<open>top_1000_snps.txt\<close> has one row and the one
  written to \<open>top_100_snps.txt\<close> has four: the latter is not made of the first rows of
  the former.
\<close>

theorem top_100_not_prefix_counterexample:
  "files (fst (extract_top_snps (\<lambda>f. Inr example_table) ascending_argsort ''plink.assoc'' ''out'' 1 empty_world)) ''out/top_1000_snps.txt''
     = Some \<lparr>columns = [''CHR'', ''SNP'', ''BP'', ''A1'', ''P''],
              rows = [[Num 2, Str ''rs3'', Num 300, Str ''G'', Num (1 / 250000000)]]\<rparr>
   \<and> files (fst (extract_top_snps (\<lambda>f. Inr example_table) ascending_argsort ''plink.assoc'' ''out'' 1 empty_world)) ''out/top_100_snps.txt''
     = Some \<lparr>columns = [''CHR'', ''SNP'', ''BP'', ''A1'', ''P''],
              rows = [[Num 2, Str ''rs3'', Num 300, Str ''G'', Num (1 / 250000000)],
                      [Num 3, Str ''rs5'', Num 500, Str ''A'', Num (1 / 10000000)],
                      [Num 2, Str ''rs4'', Num 400, Str ''T'', Num (1 / 500000)],
                      [Num 1, Str ''rs1'', Num 100, Str ''A'', Num (1 / 2)]]\<rparr>"
  by code_simp

text \<open>
  C4, as the code has it. Both tables are \<open>head\<close>s of the same sorted table. For
  \<open>n_top\<close> of at least 100 the rows of \<open>top_100_snps.txt\<close> are the first 100 rows of
  \<open>top_1000_snps.txt\<close>; for \<open>n_top\<close> from 0 to 99 it is the other way round, the rows of
  \<open>top_1000_snps.txt\<close> are the first \<open>n_top\<close> rows of \<open>top_100_snps.txt\<close>. For
  \<open>n_top\<close> of at least 0, \<open>top_1000_snps.txt\<close> has at most \<open>n_top\<close> rows, and for every
  \<open>n_top\<close> it has at most as many rows as the cleaned table.
\<close>

theorem top_tables_prefix:
  assumes "read_csv input_file = Inr df" and "resolve_p_col df = Inr pc"
    and "permutation_of_range (argsort (getcol (remove_na df pc) pc)) (length (rows (remove_na df pc)))"
  shows "\<exists>A B. files (fst (extract_top_snps read_csv argsort input_file pre n_top w0)) (pre @ ''/top_1000_snps.txt'') = Some A
       \<and> files (fst (extract_top_snps read_csv argsort input_file pre n_top w0)) (pre @ ''/top_100_snps.txt'') = Some B
       \<and> (100 \<le> n_top \<longrightarrow> rows B = take 100 (rows A))
       \<and> (0 \<le> n_top \<and> n_top < 100 \<longrightarrow> rows A = take (nat n_top) (rows B))
       \<and> (0 \<le> n_top \<longrightarrow> length (rows A) \<le> nat n_top)
       \<and> length (rows A) \<le> length (rows (remove_na df pc))"
proof -
  obtain ds where ds: "sort_values argsort (remove_na df pc) pc = Inr ds"
    and m: "mset (rows ds) = mset (rows (remove_na df pc))"
    using sort_values_perm [where argsort = argsort and df = "remove_na df pc" and key = pc, OF assms(3)] by blast
  have len: "length (rows ds) = length (rows (remove_na df pc))"
    using m by (rule mset_eq_length)
  have a: "rows (head ds 100) = take 100 (rows (head ds n_top))" if "100 \<le> n_top"
  proof -
    have "(100::nat) \<le> nat n_top" using that by linarith
    then show ?thesis using that by (simp add: head_def min_def)
  qed
  have b: "rows (head ds n_top) = take (nat n_top) (rows (head ds 100))" if "0 \<le> n_top" "n_top < 100"
  proof -
    have "nat n_top \<le> (100::nat)" using that by linarith
    then show ?thesis using that by (simp add: head_def min_def)
  qed
  have c: "0 \<le> n_top \<Longrightarrow> length (rows (head ds n_top)) \<le> nat n_top"
    by (simp add: head_def)
  have d: "length (rows (head ds n_top)) \<le> length (rows (remove_na df pc))"
    using len by (simp add: head_def)
  show ?thesis
    using extract_top_files [where read_csv = read_csv and input_file = input_file and argsort = argsort, OF assms(1,2) ds, of pre n_top w0] a b c d by simp
qed

text \<open>The example table with the default \<open>n_top = 1000\<close>.\<close>

theorem top_tables_prefix_witness:
  "\<exists>A B. files (fst (extract_top_snps (\<lambda>f. Inr example_table) ascending_argsort ''plink.assoc'' ''out'' 1000 empty_world)) ''out/top_1000_snps.txt'' = Some A
       \<and> files (fst (extract_top_snps (\<lambda>f. Inr example_table) ascending_argsort ''plink.assoc'' ''out'' 1000 empty_world)) ''out/top_100_snps.txt'' = Some B
       \<and> rows B = take 100 (rows A)
       \<and> length (rows A) \<le> 1000
       \<and> length (rows A) \<le> length (rows (remove_na example_table ''P''))"
proof -
  have h1: "(\<lambda>f. Inr example_table :: string + dataframe) ''plink.assoc'' = Inr example_table"
    by simp
  have h2: "resolve_p_col example_table = Inr ''P''"
    by code_simp
  have h3: "permutation_of_range (ascending_argsort (getcol (remove_na example_table ''P'') ''P''))
              (length (rows (remove_na example_table ''P'')))"
    by code_simp
  show ?thesis
    using top_tables_prefix [where read_csv = "\<lambda>f. Inr example_table" and argsort = ascending_argsort and pre = "''out''"
                and n_top = 1000 and ?w0.0 = empty_world, OF h1 h2 h3]
    by simp
qed

subsection \<open>Failure to read the input\<close>

text \<open>
  C6. When \<open>read_csv\<close> raises, the extractor prints the cause after its first progress
  line, writes no file and returns \<open>None\<close>; a run that has read its table never returns
  \<open>None\<close>, so the caller can tell. The command line, unpacking the result, ends with an
  uncaught TypeError.
\<close>

theorem read_failure_no_output:
  "(read_csv input_file = Inl msg \<longrightarrow>
      extract_top_snps read_csv argsort input_file output_prefix n_top w0 =
        (w0\<lparr>stdout := stdout w0 @ [''Reading association file: '' @ input_file,
                                    ''Error reading file: '' @ msg]\<rparr>, Inr None)
      \<and> files (fst (extract_top_snps read_csv argsort input_file output_prefix n_top w0)) = files w0
      \<and> (3 \<le> length argv \<and> argv ! 1 = input_file \<longrightarrow>
           main_cli read_csv argsort argv w0 =
             (w0\<lparr>stdout := stdout w0 @ [''Reading association file: '' @ input_file,
                                         ''Error reading file: '' @ msg]\<rparr>, Uncaught TypeError)))
   \<and> (read_csv input_file = Inr df \<longrightarrow>
        snd (extract_top_snps read_csv argsort input_file output_prefix n_top w0) \<noteq> Inr None)"
proof -
  have a: "snd (extract_top_snps read_csv argsort input_file output_prefix n_top w0) \<noteq> Inr None"
    if "read_csv input_file = Inr df"
    using that
    by (simp add: extract_top_snps_def Let_def split: sum.splits)
  have b: "extract_top_snps read_csv argsort input_file pre n w0 =
        (w0\<lparr>stdout := stdout w0 @ [''Reading association file: '' @ input_file,
                                    ''Error reading file: '' @ msg]\<rparr>, Inr None)"
    if "read_csv input_file = Inl msg" for pre n
    using that by (simp add: extract_top_snps_def print_def)
  have c: "main_cli read_csv argsort argv w0 =
             (w0\<lparr>stdout := stdout w0 @ [''Reading association file: '' @ input_file,
                                         ''Error reading file: '' @ msg]\<rparr>, Uncaught TypeError)"
    if "read_csv input_file = Inl msg" "3 \<le> length argv" "argv ! 1 = input_file"
    using that b [OF that(1), of "argv ! 2" 1000] by (simp add: main_cli_def)
  show ?thesis using a b c by simp
qed

text \<open>A missing input file, and the example table for the second part.\<close>

theorem read_failure_no_output_witness:
  "extract_top_snps (\<lambda>f. Inl ''No such file or directory'') ascending_argsort ''missing.assoc'' ''out'' 1000 empty_world =
        (empty_world\<lparr>stdout := stdout empty_world @ [''Reading association file: '' @ ''missing.assoc'',
                                    ''Error reading file: '' @ ''No such file or directory'']\<rparr>, Inr None)
   \<and> files (fst (extract_top_snps (\<lambda>f. Inl ''No such file or directory'') ascending_argsort ''missing.assoc'' ''out'' 1000 empty_world))
       = files empty_world
   \<and> main_cli (\<lambda>f. Inl ''No such file or directory'') ascending_argsort [''extract_top_snps.py'', ''missing.assoc'', ''out''] empty_world =
             (empty_world\<lparr>stdout := stdout empty_world @ [''Reading association file: '' @ ''missing.assoc'',
                                         ''Error reading file: '' @ ''No such file or directory'']\<rparr>, Uncaught TypeError)
   \<and> snd (extract_top_snps (\<lambda>f. Inr example_table) ascending_argsort ''plink.assoc'' ''out'' 1000 empty_world) \<noteq> Inr None"
  using read_failure_no_output [where read_csv = "\<lambda>f. Inl ''No such file or directory''" and input_file = "''missing.assoc''"
               and msg = "''No such file or directory''" and argsort = ascending_argsort and output_prefix = "''out''"
               and n_top = 1000 and ?w0.0 = empty_world
               and argv = "[''extract_top_snps.py'', ''missing.assoc'', ''out'']"]
        read_failure_no_output [where read_csv = "\<lambda>f. Inr example_table" and input_file = "''plink.assoc''"
               and argsort = ascending_argsort and output_prefix = "''out''" and n_top = 1000 and ?w0.0 = empty_world
               and df = example_table]
  by simp

subsection \<open>The command line\<close>

text \<open>
  A third argument \<open>1\<close> on the command line: \<open>top_1000_snps.txt\<close> still holds all four
  cleaned records, not the first one only.
\<close>

theorem cli_n_top_counterexample:
  "files (fst (main_cli (\<lambda>f. Inr example_table) ascending_argsort [''extract_top_snps.py'', ''plink.assoc'', ''out'', ''1''] empty_world))
      ''out/top_1000_snps.txt''
     = Some \<lparr>columns = [''CHR'', ''SNP'', ''BP'', ''A1'', ''P''],
              rows = [[Num 2, Str ''rs3'', Num 300, Str ''G'', Num (1 / 250000000)],
                      [Num 3, Str ''rs5'', Num 500, Str ''A'', Num (1 / 10000000)],
                      [Num 2, Str ''rs4'', Num 400, Str ''T'', Num (1 / 500000)],
                      [Num 1, Str ''rs1'', Num 100, Str ''A'', Num (1 / 2)]]\<rparr>"
  by code_simp

text \<open>
  C7, as the code has it. The command line reads two arguments, the input file and the
  output directory; it behaves on any longer argument list as on the list cut after
  them, and always calls the extractor with the default \<open>n_top = 1000\<close>:
  \<open>top_1000_snps.txt\<close> holds the first \<open>min(1000, cleaned count)\<close> records of the cleaned
  table sorted by p-value.
\<close>

theorem cli_ignores_third_argument:
  assumes "3 \<le> length argv" and "read_csv (argv ! 1) = Inr df" and "resolve_p_col df = Inr pc"
    and "permutation_of_range (argsort (getcol (remove_na df pc) pc)) (length (rows (remove_na df pc)))"
  shows "main_cli read_csv argsort argv w0 = main_cli read_csv argsort (take 3 argv) w0
     \<and> (\<exists>ds A. sort_values argsort (remove_na df pc) pc = Inr ds
          \<and> files (fst (main_cli read_csv argsort argv w0)) (argv ! 2 @ ''/top_1000_snps.txt'') = Some A
          \<and> columns A = columns df
          \<and> rows A = take (min 1000 (length (rows (remove_na df pc)))) (rows ds))"
proof -
  have eq: "main_cli read_csv argsort argv w0 = main_cli read_csv argsort (take 3 argv) w0"
    using assms(1) by (simp add: main_cli_def)
  obtain ds where ds: "sort_values argsort (remove_na df pc) pc = Inr ds"
    and m: "mset (rows ds) = mset (rows (remove_na df pc))"
    and c: "columns ds = columns (remove_na df pc)"
    using sort_values_perm [where argsort = argsort and df = "remove_na df pc" and key = pc, OF assms(4)] by blast
  have len: "length (rows ds) = length (rows (remove_na df pc))"
    using m by (rule mset_eq_length)
  have t: "files (fst (main_cli read_csv argsort argv w0)) (argv ! 2 @ ''/top_1000_snps.txt'') = Some (head ds 1000)"
    using extract_top_files [where read_csv = read_csv and input_file = "argv ! 1" and argsort = argsort,
        OF assms(2,3) ds, of "argv ! 2" 1000 w0]
    by (simp add: files_main_cli [OF assms(1)])
  have r: "rows (head ds 1000) = take (min 1000 (length (rows (remove_na df pc)))) (rows ds)"
    using len by (simp add: head_def min_def)
  have "columns (head ds 1000) = columns df"
    using c by simp
  with eq ds t r show ?thesis by blast
qed

text \<open>The argument list of the counterexample.\<close>

theorem cli_ignores_third_argument_witness:
  "main_cli (\<lambda>f. Inr example_table) ascending_argsort [''extract_top_snps.py'', ''plink.assoc'', ''out'', ''1''] empty_world
     = main_cli (\<lambda>f. Inr example_table) ascending_argsort (take 3 [''extract_top_snps.py'', ''plink.assoc'', ''out'', ''1'']) empty_world
     \<and> (\<exists>ds A. sort_values ascending_argsort (remove_na example_table ''P'') ''P'' = Inr ds
          \<and> files (fst (main_cli (\<lambda>f. Inr example_table) ascending_argsort [''extract_top_snps.py'', ''plink.assoc'', ''out'', ''1''] empty_world))
               ([''extract_top_snps.py'', ''plink.assoc'', ''out'', ''1''] ! 2 @ ''/top_1000_snps.txt'') = Some A
          \<and> columns A = columns example_table
          \<and> rows A = take (min 1000 (length (rows (remove_na example_table ''P'')))) (rows ds))"
proof -
  have h1: "3 \<le> length [''extract_top_snps.py'', ''plink.assoc'', ''out'', ''1'']"
    by simp
  have h2: "(\<lambda>f. Inr example_table :: string + dataframe) ([''extract_top_snps.py'', ''plink.assoc'', ''out'', ''1''] ! 1) = Inr example_table"
    by simp
  have h3: "resolve_p_col example_table = Inr ''P''"
    by code_simp
  have h4: "permutation_of_range (ascending_argsort (getcol (remove_na example_table ''P'') ''P''))
              (length (rows (remove_na example_table ''P'')))"
    by code_simp
  show ?thesis
    by (rule cli_ignores_third_argument [where read_csv = "\<lambda>f. Inr example_table" and argsort = ascending_argsort, OF h1 h2 h3 h4])
qed

subsection \<open>A missing summary column\<close>

text \<open>
  A table without the column \<open>A1\<close> whose p-value column holds text: the comparison with
  \<open>5e-8\<close> raises TypeError when two files have been written, before the summary step is
  reached.
\<close>

theorem text_p_column_counterexample:
  "snd (extract_top_snps (\<lambda>f. Inr text_p_table) ascending_argsort ''plink.assoc'' ''out'' 1000 empty_world) = Inl TypeError
   \<and> files (fst (extract_top_snps (\<lambda>f. Inr text_p_table) ascending_argsort ''plink.assoc'' ''out'' 1000 empty_world)) ''out/top_1000_snps.txt''
       = Some \<lparr>columns = [''CHR'', ''SNP'', ''BP'', ''P''], rows = [[Num 1, Str ''rs1'', Num 100, Str ''<0.001'']]\<rparr>
   \<and> files (fst (extract_top_snps (\<lambda>f. Inr text_p_table) ascending_argsort ''plink.assoc'' ''out'' 1000 empty_world)) ''out/top_100_snps.txt''
       = Some \<lparr>columns = [''CHR'', ''SNP'', ''BP'', ''P''], rows = [[Num 1, Str ''rs1'', Num 100, Str ''<0.001'']]\<rparr>
   \<and> files (fst (extract_top_snps (\<lambda>f. Inr text_p_table) ascending_argsort ''plink.assoc'' ''out'' 1000 empty_world)) ''out/genome_wide_significant_snps_5e-8.txt'' = None
   \<and> files (fst (extract_top_snps (\<lambda>f. Inr text_p_table) ascending_argsort ''plink.assoc'' ''out'' 1000 empty_world)) ''out/suggestive_snps_1e-5.txt'' = None"
  by code_simp

text \<open>
  C8, as the code has it. When the table is read, its p-value column is resolved and
  holds no text, but one of \<open>CHR\<close>, \<open>SNP\<close>, \<open>BP\<close>, \<open>A1\<close> is not in the header, the
  extractor ends with an uncaught KeyError at the summary step. By then the four earlier
  tables have been written; the summary file is left as it was.
\<close>

theorem missing_column_partial_output:
  assumes "read_csv input_file = Inr df" and "resolve_p_col df = Inr pc"
    and "permutation_of_range (argsort (getcol (remove_na df pc) pc)) (length (rows (remove_na df pc)))"
    and "\<forall>x \<in> set (getcol (remove_na df pc) pc). \<not> is_str x"
    and "\<not> {''CHR'', ''SNP'', ''BP'', ''A1''} \<subseteq> set (columns df)"
  shows "\<exists>ds. sort_values argsort (remove_na df pc) pc = Inr ds
      \<and> snd (extract_top_snps read_csv argsort input_file pre n_top w0) = Inl KeyError
      \<and> files (fst (extract_top_snps read_csv argsort input_file pre n_top w0)) =
           (files w0)(pre @ ''/top_1000_snps.txt'' \<mapsto> head ds n_top,
                      pre @ ''/top_100_snps.txt'' \<mapsto> head ds 100,
                      pre @ ''/genome_wide_significant_snps_5e-8.txt'' \<mapsto>
                        select_mask (remove_na df pc) (map (cell_lt gw_threshold) (getcol (remove_na df pc) pc)),
                      pre @ ''/suggestive_snps_1e-5.txt'' \<mapsto>
                        select_mask (remove_na df pc) (map (cell_lt suggestive_threshold) (getcol (remove_na df pc) pc)))
      \<and> files (fst (extract_top_snps read_csv argsort input_file pre n_top w0)) (pre @ ''/summary_statistics.txt'')
            = files w0 (pre @ ''/summary_statistics.txt'')"
proof -
  obtain ds where ds: "sort_values argsort (remove_na df pc) pc = Inr ds"
    using sort_values_perm [where argsort = argsort and df = "remove_na df pc" and key = pc, OF assms(3)] by blast
  have nostr: "\<not> (\<exists>x \<in> set (getcol (remove_na df pc) pc). is_str x)"
    using assms(4) by simp
  have nocol: "\<not> (\<forall>n \<in> set [''CHR'', ''SNP'', ''BP'', ''A1'', pc]. n \<in> set (columns df))"
    using assms(5) by auto
  note k = extract_files_KeyError [where read_csv = read_csv and input_file = input_file and argsort = argsort,
      OF assms(1,2) ds nostr nocol, of pre n_top w0]
  show ?thesis using ds k by simp
qed

text \<open>A table without the column \<open>A1\<close> and with a numeric p-value column.\<close>

theorem missing_column_partial_output_witness:
  "\<exists>ds. sort_values ascending_argsort (remove_na no_allele_table ''P'') ''P'' = Inr ds
      \<and> snd (extract_top_snps (\<lambda>f. Inr no_allele_table) ascending_argsort ''plink.assoc'' ''out'' 1000 empty_world) = Inl KeyError
      \<and> files (fst (extract_top_snps (\<lambda>f. Inr no_allele_table) ascending_argsort ''plink.assoc'' ''out'' 1000 empty_world)) =
           (files empty_world)(''out'' @ ''/top_1000_snps.txt'' \<mapsto> head ds 1000,
                      ''out'' @ ''/top_100_snps.txt'' \<mapsto> head ds 100,
                      ''out'' @ ''/genome_wide_significant_snps_5e-8.txt'' \<mapsto>
                        select_mask (remove_na no_allele_table ''P'')
                          (map (cell_lt gw_threshold) (getcol (remove_na no_allele_table ''P'') ''P'')),
                      ''out'' @ ''/suggestive_snps_1e-5.txt'' \<mapsto>
                        select_mask (remove_na no_allele_table ''P'')
                          (map (cell_lt suggestive_threshold) (getcol (remove_na no_allele_table ''P'') ''P'')))
      \<and> files (fst (extract_top_snps (\<lambda>f. Inr no_allele_table) ascending_argsort ''plink.assoc'' ''out'' 1000 empty_world))
            (''out'' @ ''/summary_statistics.txt'')
            = files empty_world (''out'' @ ''/summary_statistics.txt'')"
proof -
  have h1: "(\<lambda>f. Inr no_allele_table :: string + dataframe) ''plink.assoc'' = Inr no_allele_table"
    by simp
  have h2: "resolve_p_col no_allele_table = Inr ''P''"
    by code_simp
  have h3: "permutation_of_range (ascending_argsort (getcol (remove_na no_allele_table ''P'') ''P''))
              (length (rows (remove_na no_allele_table ''P'')))"
    by code_simp
  have h4: "\<forall>x \<in> set (getcol (remove_na no_allele_table ''P'') ''P''). \<not> is_str x"
    by code_simp
  have h5: "\<not> {''CHR'', ''SNP'', ''BP'', ''A1''} \<subseteq> set (columns no_allele_table)"
    by (simp add: no_allele_table_def)
  show ?thesis
    by (rule missing_column_partial_output [where read_csv = "\<lambda>f. Inr no_allele_table" and argsort = ascending_argsort, OF h1 h2 h3 h4 h5])
qed

subsection \<open>The positional fallback\<close>

text \<open>
  C9. For a table read without error whose header has no \<open>P\<close> and fewer than nine
  names, resolving the p-value column raises IndexError. The extractor ends with this
  exception uncaught, after its two progress lines and without the line of the
  read-error handler; the Manhattan and the Q-Q renderer end with it as well.
\<close>

theorem p_col_fallback_index_error:
  assumes "''P'' \<notin> set (columns df)" and "length (columns df) < 9"
    and "read_csv input_file = Inr df"
  shows "resolve_p_col df = Inl IndexError
   \<and> extract_top_snps read_csv argsort input_file output_prefix n_top w0 =
           (w0\<lparr>stdout := stdout w0 @ [''Reading association file: '' @ input_file,
                                       ''Total SNPs in file: '' @ str_nat (length (rows df))]\<rparr>, Inl IndexError)
   \<and> manhattan_plot_points read_csv input_file = Inl IndexError
   \<and> qq_plot read_csv randn input_file = Inl IndexError"
  using assms
  by (simp add: extract_top_snps_def print_def resolve_p_col_def manhattan_plot_points_def
      qq_plot_def qq_plot_pvals_def)

text \<open>A table of three columns.\<close>

theorem p_col_fallback_index_error_witness:
  "resolve_p_col short_table = Inl IndexError
   \<and> extract_top_snps (\<lambda>f. Inr short_table) ascending_argsort ''plink.assoc'' ''out'' 1000 empty_world =
           (empty_world\<lparr>stdout := stdout empty_world @ [''Reading association file: '' @ ''plink.assoc'',
                                       ''Total SNPs in file: '' @ str_nat (length (rows short_table))]\<rparr>, Inl IndexError)
   \<and> manhattan_plot_points (\<lambda>f. Inr short_table) ''plink.assoc'' = Inl IndexError
   \<and> qq_plot (\<lambda>f. Inr short_table) (\<lambda>n. replicate n 1) ''plink.assoc'' = Inl IndexError"
proof -
  have h1: "''P'' \<notin> set (columns short_table)"
    by (simp add: short_table_def)
  have h2: "length (columns short_table) < 9"
    by (simp add: short_table_def)
  have h3: "(\<lambda>f. Inr short_table :: string + dataframe) ''plink.assoc'' = Inr short_table"
    by simp
  show ?thesis
    by (rule p_col_fallback_index_error [where read_csv = "\<lambda>f. Inr short_table", OF h1 h2 h3])
qed

section \<open>The Q-Q renderer\<close>

text \<open>
  C5. For a table with \<open>n\<close> valid p-values, \<open>n\<close> at least 1, the Q-Q renderer returns,
  and its expected quantiles are \<open>n\<close> numbers, the \<open>i\<close>-th of them
  \<open>-log10(i / (n + 1))\<close> for \<open>i\<close> from 1 to \<open>n\<close>; for \<open>n = 3\<close> they are
  \<open>-log10(1/4), -log10(2/4), -log10(3/4)\<close> in this order.
\<close>

theorem qq_expected_quantiles:
  assumes "read_csv assoc_file = Inr df" and "resolve_p_col df = Inr pc"
    and "\<forall>x \<in> set (getcol df pc). \<not> is_str x"
    and "n = length (filter valid_p (getcol df pc))" and "1 \<le> n"
  shows "\<exists>res. qq_plot read_csv randn assoc_file = Inr res
      \<and> length (expected res) = n
      \<and> (\<forall>i. 1 \<le> i \<and> i \<le> n \<longrightarrow> expected res ! (i - 1) = - log 10 (real i / real (n + 1)))
      \<and> (n = 3 \<longrightarrow> expected res = [- log 10 (1 / 4), - log 10 (2 / 4), - log 10 (3 / 4)])"
proof -
  let ?pv = "filter (\<lambda>p. 0 < p) (num_values (getcol (remove_na df pc) pc))"
  have pv: "qq_plot_pvals read_csv assoc_file = Inr ?pv"
    by (rule qq_plot_pvals_Inr [where read_csv = read_csv and assoc_file = assoc_file, OF assms(1-3)])
  have len: "length ?pv = n"
    using assms(4) by (simp add: getcol_remove_na positive_count)
  have q: "qq_plot read_csv randn assoc_file =
      Inr \<lparr>observed = sort (map (\<lambda>p. - log 10 p) ?pv), expected = expected_quantiles n, lambda = lambda_gc randn ?pv\<rparr>"
  proof -
    have "length (sort (map (\<lambda>p. - log 10 p) ?pv)) = n"
      by (simp add: len)
    then have "sort (map (\<lambda>p. - log 10 p) ?pv) \<noteq> []"
      using assms(5) by (cases "sort (map (\<lambda>p. - log 10 p) ?pv)") auto
    then show ?thesis using len by (simp add: qq_plot_def pv Let_def)
  qed
  have l: "length (expected_quantiles n) = n"
    by (simp add: expected_quantiles_def)
  show ?thesis
    using q l expected_quantiles_nth [of _ n] expected_quantiles_3 by auto
qed

text \<open>A table with three valid p-values, a missing one and a zero.\<close>

theorem qq_expected_quantiles_witness:
  "\<exists>res. qq_plot (\<lambda>f. Inr zero_p_table) (\<lambda>n. replicate n 1) ''plink.assoc'' = Inr res
      \<and> length (expected res) = 3
      \<and> expected res ! 0 = - log 10 (real 1 / real (3 + 1))
      \<and> expected res = [- log 10 (1 / 4), - log 10 (2 / 4), - log 10 (3 / 4)]"
proof -
  have h1: "(\<lambda>f. Inr zero_p_table :: string + dataframe) ''plink.assoc'' = Inr zero_p_table"
    by simp
  have h2: "resolve_p_col zero_p_table = Inr ''P''"
    by code_simp
  have h3: "\<forall>x \<in> set (getcol zero_p_table ''P''). \<not> is_str x"
    by code_simp
  have h4: "3 = length (filter valid_p (getcol zero_p_table ''P''))"
    by code_simp
  have h5: "1 \<le> (3::nat)"
    by simp
  note t = qq_expected_quantiles [where read_csv = "\<lambda>f. Inr zero_p_table" and randn = "\<lambda>n. replicate n 1", OF h1 h2 h3 h4 h5]
  from t obtain res where r: "qq_plot (\<lambda>f. Inr zero_p_table) (\<lambda>n. replicate n 1) ''plink.assoc'' = Inr res
      \<and> length (expected res) = 3
      \<and> (\<forall>i. 1 \<le> i \<and> i \<le> 3 \<longrightarrow> expected res ! (i - 1) = - log 10 (real i / real (3 + 1)))
      \<and> ((3::nat) = 3 \<longrightarrow> expected res = [- log 10 (1 / 4), - log 10 (2 / 4), - log 10 (3 / 4)])" ..
  have r1: "qq_plot (\<lambda>f. Inr zero_p_table) (\<lambda>n. replicate n 1) ''plink.assoc'' = Inr res"
    using r by (rule conjunct1)
  have r2: "length (expected res) = 3"
    using r by (rule conjunct1 [OF conjunct2])
  have r3: "\<forall>i. 1 \<le> i \<and> i \<le> 3 \<longrightarrow> expected res ! (i - 1) = - log 10 (real i / real (3 + 1))"
    using r by (rule conjunct1 [OF conjunct2 [OF conjunct2]])
  have r4: "(3::nat) = 3 \<longrightarrow> expected res = [- log 10 (1 / 4), - log 10 (2 / 4), - log 10 (3 / 4)]"
    using r by (rule conjunct2 [OF conjunct2 [OF conjunct2]])
  have e: "expected res = [- log 10 (1 / 4), - log 10 (2 / 4), - log 10 (3 / 4)]"
    using r4 by (simp only: simp_thms)
  have i: "(1::nat) \<le> 1 \<and> (1::nat) \<le> 3" by simp
  have "(1::nat) \<le> 1 \<and> (1::nat) \<le> 3 \<longrightarrow> expected res ! (1 - 1) = - log 10 (real 1 / real (3 + 1))"
    using r3 by (rule spec)
  then have "expected res ! (1 - 1) = - log 10 (real 1 / real (3 + 1))"
    using i by (rule mp)
  then have z: "expected res ! 0 = - log 10 (real 1 / real (3 + 1))"
    by (simp only: diff_self_eq_0)
  show ?thesis
    by (rule exI [of _ res], intro conjI, rule r1, rule r2, rule z, rule e)
qed

text \<open>
  C10. Every p-value the Q-Q renderer retains is positive. When one is retained at
  least, their median is positive and \<open>lambda_gc\<close> is the quotient, not the fallback; the
  test \<open>chisq > 0\<close> fails only when no p-value is retained.
\<close>

theorem qq_median_positive:
  assumes "qq_plot_pvals read_csv assoc_file = Inr pvals"
  shows "(\<forall>p \<in> set pvals. 0 < p)
     \<and> (pvals \<noteq> [] \<longrightarrow> (\<exists>c. percentile50 pvals = Some c \<and> 0 < c
            \<and> lambda_gc randn pvals =
                 map_option (\<lambda>m. m / c) (percentile50 (map (\<lambda>z. (sqrt 2 * \<bar>z\<bar>)\<^sup>2) (randn (length pvals))))))
     \<and> (\<not> gt_zero (percentile50 pvals) \<longrightarrow> pvals = [])"
proof -
  have pos: "\<forall>p \<in> set pvals. 0 < p"
    using assms by (auto simp: qq_plot_pvals_def Let_def split: sum.splits if_splits)
  have ne: "\<exists>c. percentile50 pvals = Some c \<and> 0 < c
            \<and> lambda_gc randn pvals =
                 map_option (\<lambda>m. m / c) (percentile50 (map (\<lambda>z. (sqrt 2 * \<bar>z\<bar>)\<^sup>2) (randn (length pvals))))"
    if nonempty: "pvals \<noteq> []"
  proof -
    obtain c where c: "percentile50 pvals = Some c" "0 < c"
      using percentile50_positive [OF nonempty pos] by blast
    then show ?thesis by (simp add: lambda_gc_def)
  qed
  have "pvals = []" if fallback: "\<not> gt_zero (percentile50 pvals)"
  proof (rule ccontr)
    assume "pvals \<noteq> []"
    then obtain c where "percentile50 pvals = Some c" "0 < c"
      using percentile50_positive [of pvals] pos by blast
    with fallback show False by simp
  qed
  with pos ne show ?thesis by blast
qed

text \<open>The three p-values retained from the table above.\<close>

theorem qq_median_positive_witness:
  "qq_plot_pvals (\<lambda>f. Inr zero_p_table) ''plink.assoc'' = Inr [1 / 2, 1 / 4, 1 / 8]
   \<and> gt_zero (percentile50 [1 / 2, 1 / 4, 1 / 8])
   \<and> (\<exists>c. percentile50 [1 / 2, 1 / 4, 1 / 8] = Some c \<and> 0 < c
        \<and> lambda_gc (\<lambda>n. replicate n 1) [1 / 2, 1 / 4, 1 / 8] =
             map_option (\<lambda>m. m / c) (percentile50 (map (\<lambda>z. (sqrt 2 * \<bar>z\<bar>)\<^sup>2)
               (replicate (length [1 / 2, 1 / 4, 1 / 8 :: real]) 1))))"
proof -
  have h: "qq_plot_pvals (\<lambda>f. Inr zero_p_table) ''plink.assoc'' = Inr [1 / 2, 1 / 4, 1 / 8]"
    by code_simp
  have n: "[1 / 2, 1 / 4, 1 / 8 :: real] \<noteq> []"
    by simp
  obtain c where c: "percentile50 [1 / 2, 1 / 4, 1 / 8] = Some c" "0 < c"
      "lambda_gc (\<lambda>n. replicate n 1) [1 / 2, 1 / 4, 1 / 8] =
         map_option (\<lambda>m. m / c) (percentile50 (map (\<lambda>z. (sqrt 2 * \<bar>z\<bar>)\<^sup>2)
           (replicate (length [1 / 2, 1 / 4, 1 / 8 :: real]) 1)))"
    using qq_median_positive [where read_csv = "\<lambda>f. Inr zero_p_table" and randn = "\<lambda>n. replicate n 1", OF h] n
    by blast
  have g: "gt_zero (percentile50 [1 / 2, 1 / 4, 1 / 8])"
    using c(1,2) by (simp only: gt_zero.simps)
  have "\<exists>c. percentile50 [1 / 2, 1 / 4, 1 / 8] = Some c \<and> 0 < c
        \<and> lambda_gc (\<lambda>n. replicate n 1) [1 / 2, 1 / 4, 1 / 8] =
             map_option (\<lambda>m. m / c) (percentile50 (map (\<lambda>z. (sqrt 2 * \<bar>z\<bar>)\<^sup>2)
               (replicate (length [1 / 2, 1 / 4, 1 / 8 :: real]) 1)))"
    by (rule exI [of _ c], intro conjI, rule c(1), rule c(2), rule c(3))
  with h g show ?thesis by (intro conjI)
qed

end
